theory Spec2Isabelle
  imports Main
begin

section \<open>Python values and exceptions\<close>

text \<open>
  The status snapshot is whatever \<^verbatim>\<open>r.json()\<close> returns: a JSON-shaped Python
  value. A dict is an association list read with \<open>map_of\<close>; a float is kept as an
  opaque pair (significand, binary exponent), no arithmetic is done on it. The values
  assigned to the writable properties are chosen by the caller and can be any Python
  object: \<open>PObject n\<close> is an object that is none of the JSON shapes, an instance of a
  class that defines no special method (\<^verbatim>\<open>object()\<close> itself, say), named by the
  number \<open>n\<close>. It equals itself only, is true, can be hashed, cannot be iterated,
  subscripted or added to a string, and \<^verbatim>\<open>json.dumps\<close> refuses it, as it refuses a
  set, bytes or a Decimal.
\<close>

datatype pyval =
    PNone
  | PBool bool
  | PInt int
  | PFloat int int
  | PStr string
  | PList "pyval list"
  | PDict "(string \<times> pyval) list"
  | PObject nat

text \<open>
  The exceptions the module can raise. \<open>RuntimeError None\<close> is the bare
  \<^verbatim>\<open>raise RuntimeError\<close>, \<open>RuntimeError (Some m)\<close> carries the message \<open>m\<close>.
  \<open>RecursionError\<close> is what the interpreter raises when the call stack is exhausted
  (a subclass of RuntimeError, never an AttributeError). \<open>JSONDecodeError\<close> is raised
  by \<^verbatim>\<open>r.json()\<close> on a body that is not JSON.
\<close>

datatype error =
    AttributeError
  | KeyError pyval
  | TypeError
  | ValueError string
  | RuntimeError "string option"
  | RecursionError
  | JSONDecodeError

definition ebind :: "error + 'a \<Rightarrow> ('a \<Rightarrow> error + 'b) \<Rightarrow> error + 'b" where
  "ebind m f = (case m of Inl e \<Rightarrow> Inl e | Inr x \<Rightarrow> f x)"

text \<open>\<^verbatim>\<open>s.startswith(p)\<close>\<close>

definition startswith :: "string \<Rightarrow> string \<Rightarrow> bool" where
  "startswith s p = (take (length p) s = p)"

text \<open>\<^verbatim>\<open>p in s\<close> for two strings: \<open>p\<close> occurs in \<open>s\<close>.\<close>

fun substring :: "string \<Rightarrow> string \<Rightarrow> bool" where
  "substring p [] = (p = [])"
| "substring p (c # cs) = (startswith (c # cs) p \<or> substring p cs)"

text \<open>
  \<^verbatim>\<open>x[k]\<close> with a string key: a dict gives the entry or KeyError, every other
  JSON value raises TypeError (a list or a string wants an integer index, the rest is
  not subscriptable).
\<close>

fun py_getitem :: "pyval \<Rightarrow> string \<Rightarrow> error + pyval" where
  "py_getitem (PDict kvs) k =
     (case map_of kvs k of None \<Rightarrow> Inl (KeyError (PStr k)) | Some v \<Rightarrow> Inr v)"
| "py_getitem _ k = Inl TypeError"

text \<open>
  \<^verbatim>\<open>k in x\<close> with a string \<open>k\<close>: key membership for a dict, element membership
  for a list, substring test for a string, TypeError for the values that are not
  iterable.
\<close>

fun py_contains :: "string \<Rightarrow> pyval \<Rightarrow> error + bool" where
  "py_contains k (PDict kvs) = Inr (map_of kvs k \<noteq> None)"
| "py_contains k (PList xs) = Inr (List.member xs (PStr k))"
| "py_contains k (PStr s) = Inr (substring k s)"
| "py_contains k _ = Inl TypeError"

text \<open>Truth value of a Python value, as \<^verbatim>\<open>not x\<close> reads it.\<close>

fun py_truth :: "pyval \<Rightarrow> bool" where
  "py_truth PNone = False"
| "py_truth (PBool b) = b"
| "py_truth (PInt i) = (i \<noteq> 0)"
| "py_truth (PFloat m e) = (m \<noteq> 0)"
| "py_truth (PStr s) = (s \<noteq> [])"
| "py_truth (PList xs) = (xs \<noteq> [])"
| "py_truth (PDict kvs) = (kvs \<noteq> [])"
| "py_truth (PObject n) = True"

text \<open>\<^verbatim>\<open>a + b\<close> where \<open>b\<close> is a string: defined for a string \<open>a\<close> only.\<close>

fun py_add_str :: "pyval \<Rightarrow> string \<Rightarrow> error + string" where
  "py_add_str (PStr a) b = Inr (a @ b)"
| "py_add_str _ b = Inl TypeError"

text \<open>\<^verbatim>\<open>a + b\<close> where \<open>a\<close> is a string: defined for a string \<open>b\<close> only.\<close>

fun py_str_add :: "string \<Rightarrow> pyval \<Rightarrow> error + string" where
  "py_str_add a (PStr b) = Inr (a @ b)"
| "py_str_add a _ = Inl TypeError"

section \<open>HTTP\<close>

text \<open>
  The \<^verbatim>\<open>requests\<close> library is outside the repository. A request is recorded as the
  arguments the code passes; the remote service is a function \<open>net\<close> from the request
  to the response, given to every operation that talks to it. The payload keeps what the
  code passes as \<^verbatim>\<open>data=\<close>: \<open>Json v\<close> is the text \<^verbatim>\<open>json.dumps(v)\<close>,
  \<open>Form v\<close> is the dict \<open>v\<close> itself (which \<^verbatim>\<open>requests\<close> form-encodes).
  The service always answers: a request that fails in transit is not modelled.
\<close>

datatype http_method = GET | POST

datatype payload = NoData | Json pyval | Form pyval

text \<open>
  \<^verbatim>\<open>json.dumps(v)\<close> walks the value and raises TypeError at the first object it
  cannot serialise, wherever it sits in a list or a dict; otherwise it returns the text.
\<close>

fun serialisable :: "pyval \<Rightarrow> bool" where
  "serialisable (PObject n) = False"
| "serialisable (PList xs) = list_all serialisable xs"
| "serialisable (PDict kvs) = list_all serialisable (map snd kvs)"
| "serialisable v = True"

definition json_dumps :: "pyval \<Rightarrow> error + payload" where
  "json_dumps v = (if serialisable v then Inr (Json v) else Inl TypeError)"

record request =
  meth :: http_method
  url :: string
  data :: payload
  req_headers :: "string \<rightharpoonup> pyval"

record response =
  status_code :: int
  rtext :: string
  json :: "pyval option"

section \<open>The connection\<close>

text \<open>
  View objects have identity: a reference is the index of the object in \<open>objects\<close>.
  Every view holds its connection and its id; the model has one connection, so a view
  is its kind and id.
\<close>

type_synonym ref = nat

datatype view =
    UserView string
  | UserSettingsView string
  | DeviceView string
  | StructureView string

text \<open>
  The attributes of the Connection object, then the objects allocated so far and the
  requests sent so far. An attribute that \<^verbatim>\<open>__init__\<close> does not create is an option,
  \<open>None\<close> while the attribute does not exist (reading it raises AttributeError):
  \<open>transport_url\<close>, \<open>access_token\<close>, \<open>userid\<close> and \<open>status\<close> are created by
  \<^verbatim>\<open>login\<close> and \<^verbatim>\<open>update_status\<close>; \<open>user_settings_cache\<close> is the attribute
  \<^verbatim>\<open>_user_settings\<close> that \<^verbatim>\<open>UserSettings\<close> reads.
\<close>

record world =
  username :: string
  password :: string
  headers :: "string \<rightharpoonup> pyval"
  users_cache :: "string \<rightharpoonup> ref"
  devices_cache :: "string \<rightharpoonup> ref"
  structures_cache :: "string \<rightharpoonup> ref"
  user_settings_cache :: "(string \<rightharpoonup> ref) option"
  transport_url :: "pyval option"
  access_token :: "pyval option"
  userid :: "pyval option"
  status :: "pyval option"
  objects :: "view list"
  sent :: "request list"

text \<open>\<^verbatim>\<open>Connection.__init__\<close> (lines 12-25), in a world with no object and no request yet.\<close>

definition Connection_init :: "string \<Rightarrow> string \<Rightarrow> world" where
  "Connection_init u p =
     \<lparr>username = u, password = p,
      headers = [''User-Agent'' \<mapsto> PStr ''Nest/1.1.0.10 CFNetwork/548.0.4'',
                 ''Accept-Language'' \<mapsto> PStr ''en-us''],
      users_cache = Map.empty, devices_cache = Map.empty, structures_cache = Map.empty,
      user_settings_cache = None,
      transport_url = None, access_token = None, userid = None, status = None,
      objects = [], sent = []\<rparr>"

text \<open>Reading an attribute that may not exist yet.\<close>

definition attr :: "'a option \<Rightarrow> error + 'a" where
  "attr a = (case a of None \<Rightarrow> Inl AttributeError | Some v \<Rightarrow> Inr v)"

text \<open>
  Sending a request: it is appended to the log and the service answers.
\<close>

definition send :: "(request \<Rightarrow> response) \<Rightarrow> request \<Rightarrow> world \<Rightarrow> response \<times> world" where
  "send net rq w = (net rq, w\<lparr>sent := sent w @ [rq]\<rparr>)"

text \<open>\<^verbatim>\<open>r.json()\<close>\<close>

definition response_json :: "response \<Rightarrow> error + pyval" where
  "response_json r = (case json r of None \<Rightarrow> Inl JSONDecodeError | Some v \<Rightarrow> Inr v)"

text \<open>
  \<^verbatim>\<open>Connection.update_status\<close> (lines 47-51). \<open>fmt\<close> is \<^verbatim>\<open>'{}'.format\<close> of the
  interpreter on a JSON value. The URL is computed first (both attributes are read, then
  concatenated), then the request is sent, then the body is parsed and stored.
\<close>

definition update_status ::
  "(pyval \<Rightarrow> string) \<Rightarrow> (request \<Rightarrow> response) \<Rightarrow> world \<Rightarrow> (error + unit) \<times> world" where
  "update_status fmt net w =
     (case attr (transport_url w) of
        Inl e \<Rightarrow> (Inl e, w)
      | Inr t \<Rightarrow>
     (case attr (userid w) of
        Inl e \<Rightarrow> (Inl e, w)
      | Inr uid \<Rightarrow>
     (case py_add_str t (''/v2/mobile/user.'' @ fmt uid) of
        Inl e \<Rightarrow> (Inl e, w)
      | Inr u \<Rightarrow>
     (let (r, w1) = send net \<lparr>meth = GET, url = u, data = NoData, req_headers = headers w\<rparr> w
      in (case response_json r of
            Inl e \<Rightarrow> (Inl e, w1)
          | Inr st \<Rightarrow> (Inr (), w1\<lparr>status := Some st\<rparr>))))))"

text \<open>
  \<^verbatim>\<open>Connection.login\<close> (lines 27-45). Each assignment takes effect before the next
  expression is evaluated, so a failure leaves the earlier assignments in place.
  \<^verbatim>\<open>'Basic ' + self.access_token\<close> needs a string token; the three header
  assignments (lines 41-43) cannot fail once it is computed.
\<close>

definition login_headers :: "world \<Rightarrow> string \<Rightarrow> pyval \<Rightarrow> world" where
  "login_headers w a uid =
     w\<lparr>headers := (headers w)
          (''Authorization'' \<mapsto> PStr a,
           ''X-nl-user-id'' \<mapsto> uid,
           ''X-nl-protocol-version'' \<mapsto> PStr ''1'')\<rparr>"

definition login ::
  "(pyval \<Rightarrow> string) \<Rightarrow> (request \<Rightarrow> response) \<Rightarrow> world \<Rightarrow> (error + unit) \<times> world" where
  "login fmt net w =
     (let (r, w1) = send net
            \<lparr>meth = POST, url = ''https://home.nest.com/user/login'',
             data = Form (PDict [(''username'', PStr (username w)),
                                 (''password'', PStr (password w))]),
             req_headers = headers w\<rparr> w
      in (case response_json r of
            Inl e \<Rightarrow> (Inl e, w1)
          | Inr res \<Rightarrow>
         (case ebind (py_getitem res ''urls'') (\<lambda>us. py_getitem us ''transport_url'') of
            Inl e \<Rightarrow> (Inl e, w1)
          | Inr t \<Rightarrow>
         (let w2 = w1\<lparr>transport_url := Some t\<rparr>
          in (case py_getitem res ''access_token'' of
                Inl e \<Rightarrow> (Inl e, w2)
              | Inr tok \<Rightarrow>
         (let w3 = w2\<lparr>access_token := Some tok\<rparr>
          in (case py_getitem res ''userid'' of
                Inl e \<Rightarrow> (Inl e, w3)
              | Inr uid \<Rightarrow>
         (let w4 = w3\<lparr>userid := Some uid\<rparr>
          in (case py_str_add ''Basic '' tok of
                Inl e \<Rightarrow> (Inl e, w4)
              | Inr a \<Rightarrow> update_status fmt net (login_headers w4 a uid))))))))))"

section \<open>Attribute reads\<close>

text \<open>
  Every view class defines \<^verbatim>\<open>__getattr__\<close>, and its snapshot sections are
  properties. Python evaluates \<^verbatim>\<open>obj.p\<close> for a property \<open>p\<close> by calling the
  getter; when the getter raises AttributeError, the class's \<^verbatim>\<open>__getattr__(obj, 'p')\<close>
  is called instead and its outcome is the outcome of the read. Any other exception of
  the getter propagates. \<^verbatim>\<open>__getattr__\<close> reads the section property again, so the
  two can call each other without end; the interpreter stops that with RecursionError
  when the call stack is full. The argument \<open>d\<close> is the number of further calls the
  stack admits: a read with no room left raises RecursionError.
\<close>

definition prop_read :: "nat \<Rightarrow> (error + 'a) \<Rightarrow> (error + 'a) \<Rightarrow> error + 'a" where
  "prop_read d getter fallback =
     (if d = 0 then Inl RecursionError
      else (case getter of
              Inl e \<Rightarrow> (if e = AttributeError then fallback else Inl e)
            | Inr v \<Rightarrow> Inr v))"

text \<open>Lines 87-88 (and 124-125, 173-174, 276-277): a leading underscore becomes a dollar.\<close>

definition dollar :: "string \<Rightarrow> string" where
  "dollar name = (if startswith name ''_'' then ''$'' @ drop 1 name else name)"

section \<open>User\<close>

text \<open>
  \<^verbatim>\<open>User.__init__\<close> (lines 77-84) as run by \<^verbatim>\<open>User(connection, user_id)\<close>: the new
  object exists for the caller only when \<^verbatim>\<open>__init__\<close> returns.
\<close>

definition User_init :: "world \<Rightarrow> string \<Rightarrow> (error + ref) \<times> world" where
  "User_init w user_id =
     (if users_cache w user_id \<noteq> None then (Inl (RuntimeError None), w)
      else (Inr (length (objects w)),
            w\<lparr>users_cache := (users_cache w)(user_id \<mapsto> length (objects w)),
              objects := objects w @ [UserView user_id]\<rparr>))"

text \<open>\<^verbatim>\<open>User.get\<close> (lines 71-75)\<close>

definition User_get :: "world \<Rightarrow> string \<Rightarrow> (error + ref) \<times> world" where
  "User_get w user_id =
     (case users_cache w user_id of
        Some r \<Rightarrow> (Inr r, w)
      | None \<Rightarrow> User_init w user_id)"

text \<open>The getter of the property \<^verbatim>\<open>User.user\<close> (lines 95-97).\<close>

definition User_user :: "world \<Rightarrow> string \<Rightarrow> error + pyval" where
  "User_user w user_id =
     ebind (attr (status w)) (\<lambda>st.
     ebind (py_getitem st ''user'') (\<lambda>us. py_getitem us user_id))"

text \<open>\<^verbatim>\<open>User.__getattr__\<close> (lines 86-93); \<open>self_user\<close> is the read \<^verbatim>\<open>self.user\<close>.\<close>

fun User_getattr :: "nat \<Rightarrow> world \<Rightarrow> string \<Rightarrow> string \<Rightarrow> error + pyval" where
  "User_getattr 0 w user_id name = Inl RecursionError"
| "User_getattr (Suc d) w user_id name =
     (let name = dollar name;
          self_user = prop_read d (User_user w user_id) (User_getattr d w user_id ''user'')
      in ebind self_user (\<lambda>u.
         ebind (py_contains name u) (\<lambda>found.
           if found then ebind self_user (\<lambda>u. py_getitem u name)
           else Inl AttributeError)))"

section \<open>UserSettings\<close>

text \<open>\<^verbatim>\<open>UserSettings.__init__\<close> (lines 114-121)\<close>

definition UserSettings_init :: "world \<Rightarrow> string \<Rightarrow> (error + ref) \<times> world" where
  "UserSettings_init w user_id =
     (case attr (user_settings_cache w) of
        Inl e \<Rightarrow> (Inl e, w)
      | Inr m \<Rightarrow>
          (if m user_id \<noteq> None then (Inl (RuntimeError None), w)
           else (Inr (length (objects w)),
                 w\<lparr>user_settings_cache := Some (m(user_id \<mapsto> length (objects w))),
                   objects := objects w @ [UserSettingsView user_id]\<rparr>)))"

text \<open>\<^verbatim>\<open>UserSettings.get\<close> (lines 108-112)\<close>

definition UserSettings_get :: "world \<Rightarrow> string \<Rightarrow> (error + ref) \<times> world" where
  "UserSettings_get w user_id =
     (case attr (user_settings_cache w) of
        Inl e \<Rightarrow> (Inl e, w)
      | Inr m \<Rightarrow>
          (case m user_id of
             Some r \<Rightarrow> (Inr r, w)
           | None \<Rightarrow> UserSettings_init w user_id))"

text \<open>The getter of \<^verbatim>\<open>UserSettings.user_settings\<close> (lines 132-134).\<close>

definition UserSettings_user_settings :: "world \<Rightarrow> string \<Rightarrow> error + pyval" where
  "UserSettings_user_settings w user_id =
     ebind (attr (status w)) (\<lambda>st.
     ebind (py_getitem st ''user_settings'') (\<lambda>us. py_getitem us user_id))"

text \<open>\<^verbatim>\<open>UserSettings.__getattr__\<close> (lines 123-130)\<close>

fun UserSettings_getattr :: "nat \<Rightarrow> world \<Rightarrow> string \<Rightarrow> string \<Rightarrow> error + pyval" where
  "UserSettings_getattr 0 w user_id name = Inl RecursionError"
| "UserSettings_getattr (Suc d) w user_id name =
     (let name = dollar name;
          self_user_settings =
            prop_read d (UserSettings_user_settings w user_id)
              (UserSettings_getattr d w user_id ''user_settings'')
      in ebind self_user_settings (\<lambda>u.
         ebind (py_contains name u) (\<lambda>found.
           if found then ebind self_user_settings (\<lambda>u. py_getitem u name)
           else Inl AttributeError)))"

text \<open>
  What reading an attribute of a view gives: a JSON value of the snapshot, or a view
  object.
\<close>

datatype pyobj = Val pyval | Obj ref

text \<open>
  The read \<^verbatim>\<open>user.settings\<close>: the property \<^verbatim>\<open>User.settings\<close> (lines 99-101) calls
  \<^verbatim>\<open>UserSettings.get\<close>; an AttributeError of the getter hands the read over to
  \<^verbatim>\<open>User.__getattr__(user, 'settings')\<close>.
\<close>

definition User_settings :: "nat \<Rightarrow> world \<Rightarrow> string \<Rightarrow> (error + pyobj) \<times> world" where
  "User_settings d w user_id =
     (if d = 0 then (Inl RecursionError, w)
      else (case UserSettings_get w user_id of
              (Inr r, w1) \<Rightarrow> (Inr (Obj r), w1)
            | (Inl e, w1) \<Rightarrow>
                (if e = AttributeError
                 then (map_sum id Val (User_getattr d w1 user_id ''settings''), w1)
                 else (Inl e, w1))))"

section \<open>Device\<close>

text \<open>\<^verbatim>\<open>Device.clean_id\<close> (lines 141-146)\<close>

definition Device_clean_id :: "string \<Rightarrow> string" where
  "Device_clean_id device_id =
     (if startswith device_id ''device.'' then drop 7 device_id else device_id)"

text \<open>
  \<^verbatim>\<open>Device.__init__\<close> (lines 157-170) as run by \<^verbatim>\<open>Device(connection, device_id)\<close>.
  \<open>absent i x\<close> is the test \<^verbatim>\<open>i not in x\<close>.
\<close>

definition absent :: "string \<Rightarrow> pyval \<Rightarrow> error + bool" where
  "absent i x = ebind (py_contains i x) (\<lambda>b. Inr (\<not> b))"

definition Device_init :: "world \<Rightarrow> string \<Rightarrow> (error + ref) \<times> world" where
  "Device_init w device_id =
     (let self_device_id = Device_clean_id device_id
      in if devices_cache w self_device_id \<noteq> None then (Inl (RuntimeError None), w)
         else (case ebind (attr (status w)) (\<lambda>st.
                    ebind (py_getitem st ''device'') (absent self_device_id)) of
                 Inl e \<Rightarrow> (Inl e, w)
               | Inr True \<Rightarrow> (Inl (RuntimeError None), w)
               | Inr False \<Rightarrow>
              (case ebind (attr (status w)) (\<lambda>st.
                    ebind (py_getitem st ''shared'') (absent self_device_id)) of
                 Inl e \<Rightarrow> (Inl e, w)
               | Inr True \<Rightarrow> (Inl (RuntimeError None), w)
               | Inr False \<Rightarrow>
                   (Inr (length (objects w)),
                    w\<lparr>devices_cache := (devices_cache w)(self_device_id \<mapsto> length (objects w)),
                      objects := objects w @ [DeviceView self_device_id]\<rparr>))))"

text \<open>\<^verbatim>\<open>Device.get\<close> (lines 148-155)\<close>

definition Device_get :: "world \<Rightarrow> string \<Rightarrow> (error + ref) \<times> world" where
  "Device_get w device_id =
     (let device_id = Device_clean_id device_id
      in (case devices_cache w device_id of
            Some r \<Rightarrow> (Inr r, w)
          | None \<Rightarrow> Device_init w device_id))"

text \<open>The getters of \<^verbatim>\<open>Device.device\<close> (lines 189-191) and \<^verbatim>\<open>Device.shared\<close> (193-195).\<close>

definition Device_device :: "world \<Rightarrow> string \<Rightarrow> error + pyval" where
  "Device_device w device_id =
     ebind (attr (status w)) (\<lambda>st.
     ebind (py_getitem st ''device'') (\<lambda>ds. py_getitem ds device_id))"

definition Device_shared :: "world \<Rightarrow> string \<Rightarrow> error + pyval" where
  "Device_shared w device_id =
     ebind (attr (status w)) (\<lambda>st.
     ebind (py_getitem st ''shared'') (\<lambda>ds. py_getitem ds device_id))"

text \<open>
  \<^verbatim>\<open>Device.__getattr__\<close> (lines 172-182); \<open>self_device\<close> and \<open>self_shared\<close> are the
  reads \<^verbatim>\<open>self.device\<close> and \<^verbatim>\<open>self.shared\<close>.
\<close>

fun Device_getattr :: "nat \<Rightarrow> world \<Rightarrow> string \<Rightarrow> string \<Rightarrow> error + pyval" where
  "Device_getattr 0 w device_id name = Inl RecursionError"
| "Device_getattr (Suc d) w device_id name =
     (let name = dollar name;
          self_device =
            prop_read d (Device_device w device_id) (Device_getattr d w device_id ''device'');
          self_shared =
            prop_read d (Device_shared w device_id) (Device_getattr d w device_id ''shared'')
      in ebind self_device (\<lambda>dv.
         ebind (py_contains name dv) (\<lambda>found.
           if found then ebind self_device (\<lambda>dv. py_getitem dv name)
           else ebind self_shared (\<lambda>sh.
                ebind (py_contains name sh) (\<lambda>found.
                  if found then ebind self_shared (\<lambda>sh. py_getitem sh name)
                  else Inl AttributeError)))))"

text \<open>The reads \<^verbatim>\<open>self.device\<close> and \<^verbatim>\<open>self.shared\<close> made by the other methods.\<close>

definition Device_read_device :: "nat \<Rightarrow> world \<Rightarrow> string \<Rightarrow> error + pyval" where
  "Device_read_device d w device_id =
     prop_read d (Device_device w device_id) (Device_getattr d w device_id ''device'')"

definition Device_read_shared :: "nat \<Rightarrow> world \<Rightarrow> string \<Rightarrow> error + pyval" where
  "Device_read_shared d w device_id =
     prop_read d (Device_shared w device_id) (Device_getattr d w device_id ''shared'')"

text \<open>
  The read \<^verbatim>\<open>device.fan_mode\<close>: the getter (lines 197-199) runs one call deeper and
  reads \<^verbatim>\<open>self.device\<close> there.
\<close>

definition Device_fan_mode :: "nat \<Rightarrow> world \<Rightarrow> string \<Rightarrow> error + pyval" where
  "Device_fan_mode d w device_id =
     prop_read d
       (ebind (Device_read_device (d - 1) w device_id) (\<lambda>dv. py_getitem dv ''fan_mode''))
       (Device_getattr d w device_id ''fan_mode'')"

text \<open>
  The outcome of a write, from the response: lines 215-216, 238-239 and 312-313 differ
  in the message only.
\<close>

definition check_response :: "string \<Rightarrow> response \<Rightarrow> error + unit" where
  \<open>check_response what r =
     (if status_code r \<noteq> 200
      then Inl (RuntimeError (Some (''Could not set '' @ what @ '': "'' @ rtext r @ ''"'')))
      else Inr ())\<close>

text \<open>
  The setter of \<^verbatim>\<open>Device.fan_mode\<close> (lines 201-216). The arguments of
  \<^verbatim>\<open>requests.post\<close> are evaluated in the order written: the URL, then
  \<^verbatim>\<open>json.dumps(data)\<close>, then the headers; the request goes out after all three.
\<close>

definition Device_set_fan_mode ::
  "(request \<Rightarrow> response) \<Rightarrow> world \<Rightarrow> string \<Rightarrow> pyval \<Rightarrow> (error + unit) \<times> world" where
  \<open>Device_set_fan_mode net w device_id value =
     (if value \<noteq> PStr ''auto'' \<and> value \<noteq> PStr ''on''
      then (Inl (ValueError ''fan mode must be "auto" or "on"''), w)
      else
        (let data = PDict [(''fan_mode'', value)];
             headers = (headers w)(''Content-Type'' \<mapsto> PStr ''application/json'')
         in (case ebind (attr (transport_url w))
                    (\<lambda>t. py_add_str t (''/v2/put/device.'' @ device_id)) of
               Inl e \<Rightarrow> (Inl e, w)
             | Inr u \<Rightarrow>
            (case json_dumps data of
               Inl e \<Rightarrow> (Inl e, w)
             | Inr body \<Rightarrow>
                 (let (r, w1) = send net
                        \<lparr>meth = POST, url = u, data = body, req_headers = headers\<rparr> w
                  in (check_response ''the fan mode'' r, w1))))))\<close>

text \<open>
  \<^verbatim>\<open>{'auto': 'on', 'on': 'auto'}[v]\<close>: a list or a dict cannot be hashed, any other
  value that is not one of the two keys is a KeyError.
\<close>

fun fan_mode_table :: "pyval \<Rightarrow> error + pyval" where
  "fan_mode_table (PStr s) =
     (if s = ''auto'' then Inr (PStr ''on'')
      else if s = ''on'' then Inr (PStr ''auto'')
      else Inl (KeyError (PStr s)))"
| "fan_mode_table (PList xs) = Inl TypeError"
| "fan_mode_table (PDict kvs) = Inl TypeError"
| "fan_mode_table v = Inl (KeyError v)"

text \<open>\<^verbatim>\<open>Device.toggle_fan_mode\<close> (lines 218-219)\<close>

definition Device_toggle_fan_mode ::
  "nat \<Rightarrow> (request \<Rightarrow> response) \<Rightarrow> world \<Rightarrow> string \<Rightarrow> (error + unit) \<times> world" where
  "Device_toggle_fan_mode d net w device_id =
     (case ebind (Device_fan_mode d w device_id) fan_mode_table of
        Inl e \<Rightarrow> (Inl e, w)
      | Inr v \<Rightarrow> Device_set_fan_mode net w device_id v)"

text \<open>
  The setter of \<^verbatim>\<open>Device.target_temperature\<close> (lines 225-239). The version header is
  computed before the URL, and \<^verbatim>\<open>json.dumps(data)\<close> (line 235) after the URL and
  before the request is sent.
\<close>

definition Device_set_target_temperature ::
  "(pyval \<Rightarrow> string) \<Rightarrow> nat \<Rightarrow> (request \<Rightarrow> response) \<Rightarrow> world \<Rightarrow> string \<Rightarrow> pyval
     \<Rightarrow> (error + unit) \<times> world" where
  "Device_set_target_temperature fmt d net w device_id value =
     (let data = PDict [(''target_change_pending'', PBool True),
                        (''target_temperature'', value)]
      in (case ebind (Device_read_shared d w device_id) (\<lambda>sh. py_getitem sh ''$version'') of
            Inl e \<Rightarrow> (Inl e, w)
          | Inr ver \<Rightarrow>
         (let headers = (headers w)(''X-nl-base-version'' \<mapsto> PStr (fmt ver),
                                    ''Content-Type'' \<mapsto> PStr ''application/json'')
          in (case ebind (attr (transport_url w))
                     (\<lambda>t. py_add_str t (''/v2/put/shared.'' @ device_id)) of
                Inl e \<Rightarrow> (Inl e, w)
              | Inr u \<Rightarrow>
             (case json_dumps data of
                Inl e \<Rightarrow> (Inl e, w)
              | Inr body \<Rightarrow>
                  (let (r, w1) = send net
                         \<lparr>meth = POST, url = u, data = body, req_headers = headers\<rparr> w
                   in (check_response ''the target temperature'' r, w1)))))))"

section \<open>Structure\<close>

text \<open>\<^verbatim>\<open>Structure.clean_id\<close> (lines 242-247)\<close>

definition Structure_clean_id :: "string \<Rightarrow> string" where
  "Structure_clean_id structure_id =
     (if startswith structure_id ''structure.'' then drop 10 structure_id else structure_id)"

text \<open>
  \<^verbatim>\<open>Structure.__init__\<close> (lines 258-270) as run by
  \<^verbatim>\<open>Structure(connection, structure_id)\<close>: the snapshot is looked at first, the cache
  second.
\<close>

definition Structure_init :: "world \<Rightarrow> string \<Rightarrow> (error + ref) \<times> world" where
  "Structure_init w structure_id =
     (let structure_id = Structure_clean_id structure_id
      in (case ebind (attr (status w)) (\<lambda>st.
                 ebind (py_getitem st ''structure'') (absent structure_id)) of
            Inl e \<Rightarrow> (Inl e, w)
          | Inr True \<Rightarrow> (Inl (RuntimeError None), w)
          | Inr False \<Rightarrow>
              (if structures_cache w structure_id \<noteq> None then (Inl (RuntimeError None), w)
               else (Inr (length (objects w)),
                     w\<lparr>structures_cache :=
                         (structures_cache w)(structure_id \<mapsto> length (objects w)),
                       objects := objects w @ [StructureView structure_id]\<rparr>))))"

text \<open>\<^verbatim>\<open>Structure.get\<close> (lines 249-256)\<close>

definition Structure_get :: "world \<Rightarrow> string \<Rightarrow> (error + ref) \<times> world" where
  "Structure_get w structure_id =
     (let structure_id = Structure_clean_id structure_id
      in (case structures_cache w structure_id of
            Some r \<Rightarrow> (Inr r, w)
          | None \<Rightarrow> Structure_init w structure_id))"

text \<open>The getter of \<^verbatim>\<open>Structure.structure\<close> (lines 284-286).\<close>

definition Structure_structure :: "world \<Rightarrow> string \<Rightarrow> error + pyval" where
  "Structure_structure w structure_id =
     ebind (attr (status w)) (\<lambda>st.
     ebind (py_getitem st ''structure'') (\<lambda>ss. py_getitem ss structure_id))"

text \<open>\<^verbatim>\<open>Structure.__getattr__\<close> (lines 275-282)\<close>

fun Structure_getattr :: "nat \<Rightarrow> world \<Rightarrow> string \<Rightarrow> string \<Rightarrow> error + pyval" where
  "Structure_getattr 0 w structure_id name = Inl RecursionError"
| "Structure_getattr (Suc d) w structure_id name =
     (let name = dollar name;
          self_structure =
            prop_read d (Structure_structure w structure_id)
              (Structure_getattr d w structure_id ''structure'')
      in ebind self_structure (\<lambda>s.
         ebind (py_contains name s) (\<lambda>found.
           if found then ebind self_structure (\<lambda>s. py_getitem s name)
           else Inl AttributeError)))"

text \<open>The read \<^verbatim>\<open>self.structure\<close> made by the other methods.\<close>

definition Structure_read_structure :: "nat \<Rightarrow> world \<Rightarrow> string \<Rightarrow> error + pyval" where
  "Structure_read_structure d w structure_id =
     prop_read d (Structure_structure w structure_id)
       (Structure_getattr d w structure_id ''structure'')"

text \<open>The read \<^verbatim>\<open>structure.away\<close>, through the getter of lines 292-294.\<close>

definition Structure_away :: "nat \<Rightarrow> world \<Rightarrow> string \<Rightarrow> error + pyval" where
  "Structure_away d w structure_id =
     prop_read d
       (ebind (Structure_read_structure (d - 1) w structure_id) (\<lambda>s. py_getitem s ''away''))
       (Structure_getattr d w structure_id ''away'')"

text \<open>
  The setter of \<^verbatim>\<open>Structure.away\<close> (lines 296-313). Line 301 reads
  \<^verbatim>\<open>data = {'away': value}\<close>: the closing brace ends the dict there. The two lines
  that follow (\<^verbatim>\<open>'away_timestamp': int(time.time() * 1000),\<close> and
  \<^verbatim>\<open>'away_setter': 0}\<close>) belong to no statement, and Python refuses the file for
  them; the model takes the statements that are well formed, so \<open>data\<close> is the dict of
  line 301. The dict is passed as it is (line 309), not through \<^verbatim>\<open>json.dumps\<close>.
\<close>

definition Structure_set_away ::
  "(pyval \<Rightarrow> string) \<Rightarrow> nat \<Rightarrow> (request \<Rightarrow> response) \<Rightarrow> world \<Rightarrow> string \<Rightarrow> pyval
     \<Rightarrow> (error + unit) \<times> world" where
  "Structure_set_away fmt d net w structure_id value =
     (if \<not> (case value of PBool b \<Rightarrow> True | _ \<Rightarrow> False)
      then (Inl (ValueError ''Away can only be set to True or False''), w)
      else
        (let data = PDict [(''away'', value)]
         in (case ebind (Structure_read_structure d w structure_id)
                    (\<lambda>s. py_getitem s ''$version'') of
               Inl e \<Rightarrow> (Inl e, w)
             | Inr ver \<Rightarrow>
            (let headers = (headers w)(''X-nl-base-version'' \<mapsto> PStr (fmt ver),
                                       ''Content-Type'' \<mapsto> PStr ''application/json'')
             in (case ebind (attr (transport_url w))
                        (\<lambda>t. py_add_str t (''/v2/put/structure.'' @ structure_id)) of
                   Inl e \<Rightarrow> (Inl e, w)
                 | Inr u \<Rightarrow>
                     (let (r, w1) = send net
                            \<lparr>meth = POST, url = u, data = Form data, req_headers = headers\<rparr> w
                      in (check_response ''away'' r, w1)))))))"

text \<open>\<^verbatim>\<open>Structure.toggle_away\<close> (lines 315-316)\<close>

definition Structure_toggle_away ::
  "(pyval \<Rightarrow> string) \<Rightarrow> nat \<Rightarrow> (request \<Rightarrow> response) \<Rightarrow> world \<Rightarrow> string
     \<Rightarrow> (error + unit) \<times> world" where
  "Structure_toggle_away fmt d net w structure_id =
     (case Structure_away d w structure_id of
        Inl e \<Rightarrow> (Inl e, w)
      | Inr v \<Rightarrow> Structure_set_away fmt d net w structure_id (PBool (\<not> py_truth v)))"

section \<open>Reachable worlds\<close>

text \<open>
  The worlds the module can produce: a fresh connection, then any of its operations, with
  any arguments and any answers of the service. A failed operation counts too, with
  whatever it had changed before it raised.
\<close>

inductive reachable :: "world \<Rightarrow> bool" where
  Connection_init: "reachable (Connection_init u p)"
| login: "reachable w \<Longrightarrow> reachable (snd (login fmt net w))"
| update_status: "reachable w \<Longrightarrow> reachable (snd (update_status fmt net w))"
| User_get: "reachable w \<Longrightarrow> reachable (snd (User_get w i))"
| User_init: "reachable w \<Longrightarrow> reachable (snd (User_init w i))"
| User_settings: "reachable w \<Longrightarrow> reachable (snd (User_settings d w i))"
| UserSettings_get: "reachable w \<Longrightarrow> reachable (snd (UserSettings_get w i))"
| UserSettings_init: "reachable w \<Longrightarrow> reachable (snd (UserSettings_init w i))"
| Device_get: "reachable w \<Longrightarrow> reachable (snd (Device_get w i))"
| Device_init: "reachable w \<Longrightarrow> reachable (snd (Device_init w i))"
| Device_set_fan_mode: "reachable w \<Longrightarrow> reachable (snd (Device_set_fan_mode net w i v))"
| Device_toggle_fan_mode: "reachable w \<Longrightarrow> reachable (snd (Device_toggle_fan_mode d net w i))"
| Device_set_target_temperature:
    "reachable w \<Longrightarrow> reachable (snd (Device_set_target_temperature fmt d net w i v))"
| Structure_get: "reachable w \<Longrightarrow> reachable (snd (Structure_get w i))"
| Structure_init: "reachable w \<Longrightarrow> reachable (snd (Structure_init w i))"
| Structure_set_away: "reachable w \<Longrightarrow> reachable (snd (Structure_set_away fmt d net w i v))"
| Structure_toggle_away: "reachable w \<Longrightarrow> reachable (snd (Structure_toggle_away fmt d net w i))"

text \<open>Two worlds with the same view objects and the same identity caches.\<close>

definition same_views :: "world \<Rightarrow> world \<Rightarrow> bool" where
  "same_views w w' \<longleftrightarrow>
     objects w' = objects w \<and> users_cache w' = users_cache w \<and>
     devices_cache w' = devices_cache w \<and> structures_cache w' = structures_cache w \<and>
     user_settings_cache w' = user_settings_cache w"

text \<open>
  The entry a connection's identity caches hold for a view of a given kind and id, and
  the data model's invariant: every view object is the one cached for its kind and id.
\<close>

fun cached_ref :: "world \<Rightarrow> view \<Rightarrow> ref option" where
  "cached_ref w (UserView i) = users_cache w i"
| "cached_ref w (UserSettingsView i) =
     (case user_settings_cache w of None \<Rightarrow> None | Some m \<Rightarrow> m i)"
| "cached_ref w (DeviceView i) = devices_cache w i"
| "cached_ref w (StructureView i) = structures_cache w i"

definition instances_cached :: "world \<Rightarrow> bool" where
  "instances_cached w \<longleftrightarrow>
     (\<forall>r < length (objects w). cached_ref w (objects w ! r) = Some r)"

section \<open>A sample session\<close>

text \<open>
  Concrete inputs for the examples: \<^verbatim>\<open>'{}'.format\<close> on the scalars whose text is
  known exactly (strings, integers, booleans, None; the examples format nothing else), a
  snapshot with one thermostat, two users and one structure, a service that answers the
  login and the status request and accepts every write, and one that refuses every write.
\<close>

fun show_nat :: "nat \<Rightarrow> string" where
  "show_nat n =
     (if n < 10 then [''0123456789'' ! n]
      else show_nat (n div 10) @ [''0123456789'' ! (n mod 10)])"

declare show_nat.simps [simp del]

definition format_scalar :: "pyval \<Rightarrow> string" where
  "format_scalar v =
     (case v of
        PStr s \<Rightarrow> s
      | PInt i \<Rightarrow> (if i < 0 then ''-'' @ show_nat (nat (- i)) else show_nat (nat i))
      | PBool b \<Rightarrow> (if b then ''True'' else ''False'')
      | PNone \<Rightarrow> ''None''
      | _ \<Rightarrow> [])"

definition sample_status :: pyval where
  "sample_status = PDict
     [(''device'', PDict [(''D1'', PDict [(''fan_mode'', PStr ''auto''), (''$version'', PInt 3),
                                          (''_hidden'', PInt 1), (''name'', PStr ''hall'')])]),
      (''shared'', PDict [(''D1'', PDict [(''target_temperature'', PFloat 43 (- 1)),
                                          (''$version'', PInt 17),
                                          (''name'', PStr ''shared hall'')])]),
      (''user'', PDict [(''U1'', PDict [(''name'', PStr ''me''), (''settings'', PInt 5)]),
                        (''U2'', PDict [(''name'', PStr ''you'')])]),
      (''user_settings'', PDict [(''U1'', PDict [(''$version'', PInt 1)])]),
      (''structure'', PDict [(''S1'', PDict [(''away'', PBool False), (''$version'', PInt 9),
                                             (''devices'', PList [PStr ''device.D1''])])]),
      (''link'', PDict [(''D1'', PDict [(''structure'', PStr ''structure.S1'')])])]"

definition sample_login :: pyval where
  "sample_login = PDict [(''urls'', PDict [(''transport_url'', PStr ''https://t.example'')]),
                         (''access_token'', PStr ''tok''), (''userid'', PStr ''U1'')]"

definition sample_net :: "request \<Rightarrow> response" where
  "sample_net rq =
     (if meth rq = GET then \<lparr>status_code = 200, rtext = ''{}'', json = Some sample_status\<rparr>
      else if url rq = ''https://home.nest.com/user/login''
      then \<lparr>status_code = 200, rtext = ''{}'', json = Some sample_login\<rparr>
      else \<lparr>status_code = 200, rtext = ''ok'', json = None\<rparr>)"

definition failing_net :: "request \<Rightarrow> response" where
  "failing_net rq = \<lparr>status_code = 500, rtext = ''no'', json = None\<rparr>"

definition sample_headers :: "string \<rightharpoonup> pyval" where
  "sample_headers =
     [''User-Agent'' \<mapsto> PStr ''Nest/1.1.0.10 CFNetwork/548.0.4'',
      ''Accept-Language'' \<mapsto> PStr ''en-us'',
      ''Authorization'' \<mapsto> PStr ''Basic tok'',
      ''X-nl-user-id'' \<mapsto> PStr ''U1'',
      ''X-nl-protocol-version'' \<mapsto> PStr ''1'']"

text \<open>The world after \<^verbatim>\<open>Connection('me@example.org', 'secret').login()\<close> there.\<close>

definition sample_world :: world where
  "sample_world =
     \<lparr>username = ''me@example.org'', password = ''secret'',
      headers = sample_headers,
      users_cache = Map.empty, devices_cache = Map.empty, structures_cache = Map.empty,
      user_settings_cache = None,
      transport_url = Some (PStr ''https://t.example''),
      access_token = Some (PStr ''tok''), userid = Some (PStr ''U1''),
      status = Some sample_status,
      objects = [],
      sent = [\<lparr>meth = POST, url = ''https://home.nest.com/user/login'',
               data = Form (PDict [(''username'', PStr ''me@example.org''),
                                   (''password'', PStr ''secret'')]),
               req_headers = [''User-Agent'' \<mapsto> PStr ''Nest/1.1.0.10 CFNetwork/548.0.4'',
                              ''Accept-Language'' \<mapsto> PStr ''en-us'']\<rparr>,
              \<lparr>meth = GET, url = ''https://t.example/v2/mobile/user.U1'', data = NoData,
               req_headers = sample_headers\<rparr>]\<rparr>"

text \<open>The sample world with a snapshot in which the thermostat's fan is on.\<close>

definition snapshot_on :: world where
  "snapshot_on = sample_world\<lparr>status := Some (PDict [(''device'',
          PDict [(''D1'', PDict [(''fan_mode'', PStr ''on'')])])])\<rparr>"

text \<open>A write request to the sample service.\<close>

definition sample_put :: "string \<Rightarrow> payload \<Rightarrow> (string \<rightharpoonup> pyval) \<Rightarrow> request" where
  "sample_put path body hs =
     \<lparr>meth = POST, url = ''https://t.example/v2/put/'' @ path, data = body, req_headers = hs\<rparr>"


section \<open>Reads that succeed\<close>

text \<open>
  Once the snapshot is loaded a section getter fails with KeyError or TypeError only, so
  the read is the getter's result and \<^verbatim>\<open>__getattr__\<close> is not entered through it.
\<close>

lemma Device_read_device_ok:
  "0 < d \<Longrightarrow> Device_device w i = Inr dv \<Longrightarrow> Device_read_device d w i = Inr dv"
  by (simp add: Device_read_device_def prop_read_def)

lemma Device_read_shared_ok:
  "0 < d \<Longrightarrow> Device_shared w i = Inr sh \<Longrightarrow> Device_read_shared d w i = Inr sh"
  by (simp add: Device_read_shared_def prop_read_def)

lemma Structure_read_structure_ok:
  "0 < d \<Longrightarrow> Structure_structure w i = Inr s \<Longrightarrow> Structure_read_structure d w i = Inr s"
  by (simp add: Structure_read_structure_def prop_read_def)

lemma Device_fan_mode_ok:
  assumes "1 < d" and "Device_device w i = Inr dv" and "py_getitem dv ''fan_mode'' = Inr v"
  shows "Device_fan_mode d w i = Inr v"
proof -
  from assms(1) have "0 < d - 1" by simp
  then have "Device_read_device (d - 1) w i = Inr dv"
    using assms(2) by (rule Device_read_device_ok)
  with assms show ?thesis
    by (simp add: Device_fan_mode_def prop_read_def ebind_def)
qed

lemma Structure_away_ok:
  assumes "1 < d" and "Structure_structure w i = Inr s" and "py_getitem s ''away'' = Inr v"
  shows "Structure_away d w i = Inr v"
proof -
  from assms(1) have "0 < d - 1" by simp
  then have "Structure_read_structure (d - 1) w i = Inr s"
    using assms(2) by (rule Structure_read_structure_ok)
  with assms show ?thesis
    by (simp add: Structure_away_def prop_read_def ebind_def)
qed

lemma two_calls: "1 < d \<Longrightarrow> \<exists>d'. d = Suc (Suc d')"
  by (cases d) (auto simp: gr0_conv_Suc)

text \<open>The dynamic lookups on a section that is a dict.\<close>

lemma User_getattr_dict:
  assumes "1 < d" and "User_user w i = Inr (PDict kvs)"
  shows "User_getattr d w i name =
    (case map_of kvs (dollar name) of None \<Rightarrow> Inl AttributeError | Some v \<Rightarrow> Inr v)"
proof -
  from assms(1) obtain d' where d: "d = Suc (Suc d')"
    using two_calls by blast
  show ?thesis
    unfolding d using assms(2)
    by (simp add: prop_read_def Let_def ebind_def split: option.splits)
qed

lemma UserSettings_getattr_dict:
  assumes "1 < d" and "UserSettings_user_settings w i = Inr (PDict kvs)"
  shows "UserSettings_getattr d w i name =
    (case map_of kvs (dollar name) of None \<Rightarrow> Inl AttributeError | Some v \<Rightarrow> Inr v)"
proof -
  from assms(1) obtain d' where d: "d = Suc (Suc d')"
    using two_calls by blast
  show ?thesis
    unfolding d using assms(2)
    by (simp add: prop_read_def Let_def ebind_def split: option.splits)
qed

lemma Structure_getattr_dict:
  assumes "1 < d" and "Structure_structure w i = Inr (PDict kvs)"
  shows "Structure_getattr d w i name =
    (case map_of kvs (dollar name) of None \<Rightarrow> Inl AttributeError | Some v \<Rightarrow> Inr v)"
proof -
  from assms(1) obtain d' where d: "d = Suc (Suc d')"
    using two_calls by blast
  show ?thesis
    unfolding d using assms(2)
    by (simp add: prop_read_def Let_def ebind_def split: option.splits)
qed

lemma Device_getattr_dict:
  assumes "1 < d" and "Device_device w i = Inr (PDict dev)"
    and "Device_shared w i = Inr (PDict shr)"
  shows "Device_getattr d w i name =
    (case map_of dev (dollar name) of
       Some v \<Rightarrow> Inr v
     | None \<Rightarrow> (case map_of shr (dollar name) of
                  Some v \<Rightarrow> Inr v
                | None \<Rightarrow> Inl AttributeError))"
proof -
  from assms(1) obtain d' where d: "d = Suc (Suc d')"
    using two_calls by blast
  show ?thesis
    unfolding d using assms(2,3)
    by (simp add: prop_read_def Let_def ebind_def split: option.splits)
qed

lemma dollar_underscore: "dollar (CHR ''_'' # rest) = CHR ''$'' # rest"
  by (simp add: dollar_def startswith_def)

section \<open>Writes\<close>

text \<open>
  A write either raises before anything is sent and leaves the world as it was, or sends
  exactly one request and ends as the response says.
\<close>

lemma Device_set_fan_mode_cases:
  "(\<exists>e. Device_set_fan_mode net w i v = (Inl e, w)) \<or>
   (\<exists>rq. Device_set_fan_mode net w i v =
      (check_response ''the fan mode'' (net rq), w\<lparr>sent := sent w @ [rq]\<rparr>))"
  by (auto simp: Device_set_fan_mode_def Let_def send_def split: sum.splits)

lemma Device_set_target_temperature_cases:
  "(\<exists>e. Device_set_target_temperature fmt d net w i v = (Inl e, w)) \<or>
   (\<exists>rq. Device_set_target_temperature fmt d net w i v =
      (check_response ''the target temperature'' (net rq), w\<lparr>sent := sent w @ [rq]\<rparr>))"
  by (auto simp: Device_set_target_temperature_def Let_def send_def split: sum.splits)

lemma Structure_set_away_cases:
  "(\<exists>e. Structure_set_away fmt d net w i v = (Inl e, w)) \<or>
   (\<exists>rq. Structure_set_away fmt d net w i v =
      (check_response ''away'' (net rq), w\<lparr>sent := sent w @ [rq]\<rparr>))"
  by (auto simp: Structure_set_away_def Let_def send_def split: sum.splits)

section \<open>The sample session\<close>

lemma sample_world_login:
  "login format_scalar sample_net (Connection_init ''me@example.org'' ''secret'') =
     (Inr (), sample_world)"
  by (simp add: login_def update_status_def send_def response_json_def sample_net_def
      Connection_init_def ebind_def attr_def login_headers_def format_scalar_def
      sample_login_def sample_world_def sample_headers_def Let_def)

lemma sample_world_reachable: "reachable sample_world"
proof -
  have "reachable (snd (login format_scalar sample_net
          (Connection_init ''me@example.org'' ''secret'')))"
    by (intro reachable.intros)
  then show ?thesis by (simp add: sample_world_login)
qed

lemma sample_fields:
  "headers sample_world = sample_headers"
  "users_cache sample_world = Map.empty"
  "devices_cache sample_world = Map.empty"
  "structures_cache sample_world = Map.empty"
  "user_settings_cache sample_world = None"
  "transport_url sample_world = Some (PStr ''https://t.example'')"
  "status sample_world = Some sample_status"
  "objects sample_world = []"
  by (simp_all add: sample_world_def)

lemma sample_sections:
  "User_user sample_world ''U1'' = Inr (PDict [(''name'', PStr ''me''), (''settings'', PInt 5)])"
  "User_user sample_world ''U2'' = Inr (PDict [(''name'', PStr ''you'')])"
  "Device_device sample_world ''D1'' =
     Inr (PDict [(''fan_mode'', PStr ''auto''), (''$version'', PInt 3),
                 (''_hidden'', PInt 1), (''name'', PStr ''hall'')])"
  "Device_shared sample_world ''D1'' =
     Inr (PDict [(''target_temperature'', PFloat 43 (- 1)),
                 (''$version'', PInt 17), (''name'', PStr ''shared hall'')])"
  "Structure_structure sample_world ''S1'' =
     Inr (PDict [(''away'', PBool False), (''$version'', PInt 9),
                 (''devices'', PList [PStr ''device.D1''])])"
  "UserSettings_user_settings sample_world ''U1'' = Inr (PDict [(''$version'', PInt 1)])"
  by (simp_all add: User_user_def Device_device_def Device_shared_def Structure_structure_def
      UserSettings_user_settings_def sample_fields sample_status_def ebind_def attr_def)

section \<open>The away write\<close>

text \<open>
  Claim C1: assigning \<^verbatim>\<open>Structure.away\<close> posts to the structure's update endpoint a
  body with the three entries away, away_timestamp and away_setter, and a header
  \<^verbatim>\<open>X-nl-base-version\<close> taken from the structure section's \<^verbatim>\<open>$version\<close>. The code
  closes the dict after the first entry: on the sample session, setting away to True
  sends the version header \<open>9\<close> of the section, and the body holds the entry
  \<open>away\<close> alone, with neither \<open>away_timestamp\<close> nor \<open>away_setter\<close>.
\<close>

theorem set_away_body_as_written:
  "Structure_set_away format_scalar 2 sample_net sample_world ''S1'' (PBool True) =
     (Inr (), sample_world\<lparr>sent := sent sample_world @
        [\<lparr>meth = POST, url = ''https://t.example/v2/put/structure.S1'',
          data = Form (PDict [(''away'', PBool True)]),
          req_headers = sample_headers(''X-nl-base-version'' \<mapsto> PStr ''9'',
                                       ''Content-Type'' \<mapsto> PStr ''application/json'')\<rparr>]\<rparr>)"
  by (simp add: Structure_set_away_def Structure_read_structure_ok sample_sections ebind_def
      attr_def send_def check_response_def sample_net_def format_scalar_def show_nat.simps
      Let_def sample_fields)

section \<open>Failed and successful writes\<close>

text \<open>
  Claim C3: for each of the three writes (fan mode, target temperature, away), when the
  request \<open>rq\<close> has been sent and the response's status is not 200 the write raises
  RuntimeError with a message that quotes the response body, and when the status is 200
  it returns without raising.
\<close>

theorem write_outcome:
  \<open>(sent (snd (Device_set_fan_mode net w i v)) = sent w @ [rq] \<longrightarrow>
      fst (Device_set_fan_mode net w i v) =
        (if status_code (net rq) = 200 then Inr ()
         else Inl (RuntimeError (Some
                (''Could not set the fan mode: "'' @ rtext (net rq) @ ''"''))))) \<and>
   (sent (snd (Device_set_target_temperature fmt d net w i v)) = sent w @ [rq] \<longrightarrow>
      fst (Device_set_target_temperature fmt d net w i v) =
        (if status_code (net rq) = 200 then Inr ()
         else Inl (RuntimeError (Some
                (''Could not set the target temperature: "'' @ rtext (net rq) @ ''"''))))) \<and>
   (sent (snd (Structure_set_away fmt d net w i v)) = sent w @ [rq] \<longrightarrow>
      fst (Structure_set_away fmt d net w i v) =
        (if status_code (net rq) = 200 then Inr ()
         else Inl (RuntimeError (Some
                (''Could not set away: "'' @ rtext (net rq) @ ''"'')))))\<close>
proof (intro conjI impI)
  assume "sent (snd (Device_set_fan_mode net w i v)) = sent w @ [rq]"
  with Device_set_fan_mode_cases [of net w i v]
  show \<open>fst (Device_set_fan_mode net w i v) =
        (if status_code (net rq) = 200 then Inr ()
         else Inl (RuntimeError (Some
                (''Could not set the fan mode: "'' @ rtext (net rq) @ ''"''))))\<close>
    by (auto simp: check_response_def)
next
  assume "sent (snd (Device_set_target_temperature fmt d net w i v)) = sent w @ [rq]"
  with Device_set_target_temperature_cases [of fmt d net w i v]
  show \<open>fst (Device_set_target_temperature fmt d net w i v) =
        (if status_code (net rq) = 200 then Inr ()
         else Inl (RuntimeError (Some
                (''Could not set the target temperature: "'' @ rtext (net rq) @ ''"''))))\<close>
    by (auto simp: check_response_def)
next
  assume "sent (snd (Structure_set_away fmt d net w i v)) = sent w @ [rq]"
  with Structure_set_away_cases [of fmt d net w i v]
  show \<open>fst (Structure_set_away fmt d net w i v) =
        (if status_code (net rq) = 200 then Inr ()
         else Inl (RuntimeError (Some
                (''Could not set away: "'' @ rtext (net rq) @ ''"''))))\<close>
    by (auto simp: check_response_def)
qed

text \<open>
  On the sample session: the fan mode write refused with status 500 and body \<open>no\<close>,
  the target temperature write and the away write accepted with status 200.
\<close>

lemma sample_writes:
  "Device_set_fan_mode failing_net sample_world ''D1'' (PStr ''on'') =
     (check_response ''the fan mode'' \<lparr>status_code = 500, rtext = ''no'', json = None\<rparr>,
      sample_world\<lparr>sent := sent sample_world @
        [sample_put ''device.D1'' (Json (PDict [(''fan_mode'', PStr ''on'')]))
           (sample_headers(''Content-Type'' \<mapsto> PStr ''application/json''))]\<rparr>)"
  "Device_set_target_temperature format_scalar 2 sample_net sample_world ''D1'' (PInt 20) =
     (Inr (), sample_world\<lparr>sent := sent sample_world @
        [sample_put ''shared.D1''
           (Json (PDict [(''target_change_pending'', PBool True),
                         (''target_temperature'', PInt 20)]))
           (sample_headers(''X-nl-base-version'' \<mapsto> PStr ''17'',
                           ''Content-Type'' \<mapsto> PStr ''application/json''))]\<rparr>)"
  "Structure_set_away format_scalar 2 sample_net sample_world ''S1'' (PBool True) =
     (Inr (), sample_world\<lparr>sent := sent sample_world @
        [sample_put ''structure.S1'' (Form (PDict [(''away'', PBool True)]))
           (sample_headers(''X-nl-base-version'' \<mapsto> PStr ''9'',
                           ''Content-Type'' \<mapsto> PStr ''application/json''))]\<rparr>)"
  by (simp_all add: Device_set_fan_mode_def Device_set_target_temperature_def
      Structure_set_away_def Device_read_shared_ok Structure_read_structure_ok
      sample_sections ebind_def attr_def send_def check_response_def sample_net_def
      failing_net_def format_scalar_def show_nat.simps Let_def sample_fields sample_put_def
      json_dumps_def)

theorem write_outcome_witness:
  \<open>sent (snd (Device_set_fan_mode failing_net sample_world ''D1'' (PStr ''on''))) =
     sent sample_world @
       [sample_put ''device.D1'' (Json (PDict [(''fan_mode'', PStr ''on'')]))
          (sample_headers(''Content-Type'' \<mapsto> PStr ''application/json''))] \<and>
   fst (Device_set_fan_mode failing_net sample_world ''D1'' (PStr ''on'')) =
     Inl (RuntimeError (Some ''Could not set the fan mode: "no"'')) \<and>
   sent (snd (Device_set_target_temperature format_scalar 2 sample_net sample_world ''D1''
                (PInt 20))) =
     sent sample_world @
       [sample_put ''shared.D1''
          (Json (PDict [(''target_change_pending'', PBool True),
                        (''target_temperature'', PInt 20)]))
          (sample_headers(''X-nl-base-version'' \<mapsto> PStr ''17'',
                          ''Content-Type'' \<mapsto> PStr ''application/json''))] \<and>
   fst (Device_set_target_temperature format_scalar 2 sample_net sample_world ''D1''
          (PInt 20)) = Inr () \<and>
   sent (snd (Structure_set_away format_scalar 2 sample_net sample_world ''S1''
                (PBool True))) =
     sent sample_world @
       [sample_put ''structure.S1'' (Form (PDict [(''away'', PBool True)]))
          (sample_headers(''X-nl-base-version'' \<mapsto> PStr ''9'',
                          ''Content-Type'' \<mapsto> PStr ''application/json''))] \<and>
   fst (Structure_set_away format_scalar 2 sample_net sample_world ''S1'' (PBool True)) =
     Inr ()\<close>
proof -
  let ?fan = "sample_put ''device.D1'' (Json (PDict [(''fan_mode'', PStr ''on'')]))
          (sample_headers(''Content-Type'' \<mapsto> PStr ''application/json''))"
  let ?temp = "sample_put ''shared.D1''
          (Json (PDict [(''target_change_pending'', PBool True),
                        (''target_temperature'', PInt 20)]))
          (sample_headers(''X-nl-base-version'' \<mapsto> PStr ''17'',
                          ''Content-Type'' \<mapsto> PStr ''application/json''))"
  let ?away = "sample_put ''structure.S1'' (Form (PDict [(''away'', PBool True)]))
          (sample_headers(''X-nl-base-version'' \<mapsto> PStr ''9'',
                          ''Content-Type'' \<mapsto> PStr ''application/json''))"
  have fan: "sent (snd (Device_set_fan_mode failing_net sample_world ''D1'' (PStr ''on''))) =
      sent sample_world @ [?fan]"
    by (simp add: sample_writes)
  have temp: "sent (snd (Device_set_target_temperature format_scalar 2 sample_net sample_world
      ''D1'' (PInt 20))) = sent sample_world @ [?temp]"
    by (simp add: sample_writes)
  have away: "sent (snd (Structure_set_away format_scalar 2 sample_net sample_world ''S1''
      (PBool True))) = sent sample_world @ [?away]"
    by (simp add: sample_writes)
  from write_outcome [of failing_net sample_world "''D1''" "PStr ''on''" ?fan] fan
  have "fst (Device_set_fan_mode failing_net sample_world ''D1'' (PStr ''on'')) =
     Inl (RuntimeError (Some (''Could not set the fan mode: \"'' @ ''no'' @ ''\"'')))"
    by (simp add: failing_net_def)
  moreover
  from write_outcome [of sample_net sample_world "''D1''" "PInt 20" ?temp format_scalar 2]
    temp
  have "fst (Device_set_target_temperature format_scalar 2 sample_net sample_world ''D1''
          (PInt 20)) = Inr ()"
    by (simp add: sample_net_def sample_put_def)
  moreover
  from write_outcome [of sample_net sample_world "''S1''" "PBool True" ?away format_scalar 2]
    away
  have "fst (Structure_set_away format_scalar 2 sample_net sample_world ''S1'' (PBool True)) =
     Inr ()"
    by (simp add: sample_net_def sample_put_def)
  ultimately show ?thesis
    using fan temp away by simp
qed


section \<open>Rejected values\<close>

text \<open>
  Claim C4: for every device and every value other than \<open>auto\<close> and \<open>on\<close>,
  assigning \<^verbatim>\<open>Device.fan_mode\<close> raises ValueError and leaves the world as it was: the
  connection is unchanged and no request has been sent.
\<close>

theorem fan_mode_rejected:
  \<open>v \<noteq> PStr ''auto'' \<Longrightarrow> v \<noteq> PStr ''on'' \<Longrightarrow>
   Device_set_fan_mode net w i v = (Inl (ValueError ''fan mode must be "auto" or "on"''), w)\<close>
  by (simp add: Device_set_fan_mode_def)

text \<open>The fan mode \<open>off\<close>, refused on the sample session before the service is asked.\<close>

theorem fan_mode_rejected_witness:
  \<open>PStr ''off'' \<noteq> PStr ''auto'' \<and> PStr ''off'' \<noteq> PStr ''on'' \<and>
   Device_set_fan_mode sample_net sample_world ''D1'' (PStr ''off'') =
     (Inl (ValueError ''fan mode must be "auto" or "on"''), sample_world)\<close>
  using fan_mode_rejected [of "PStr ''off''" sample_net sample_world "''D1''"]
  by simp

text \<open>
  Claim C5: for every structure and every value that is not a boolean, assigning
  \<^verbatim>\<open>Structure.away\<close> raises ValueError and leaves the world as it was, so no request
  has been sent.
\<close>

theorem away_rejected:
  "(\<forall>b. v \<noteq> PBool b) \<Longrightarrow>
   Structure_set_away fmt d net w i v =
     (Inl (ValueError ''Away can only be set to True or False''), w)"
  by (cases v) (auto simp: Structure_set_away_def)

text \<open>The integer 1, which Python does not count as an instance of bool.\<close>

theorem away_rejected_witness:
  "PInt 1 \<noteq> PBool True \<and> PInt 1 \<noteq> PBool False \<and>
   Structure_set_away format_scalar 2 sample_net sample_world ''S1'' (PInt 1) =
     (Inl (ValueError ''Away can only be set to True or False''), sample_world)"
  using away_rejected [of "PInt 1" format_scalar 2 sample_net sample_world "''S1''"]
  by simp

section \<open>The target temperature write\<close>

text \<open>
  Claim C6 says that for every value the assignment to \<^verbatim>\<open>Device.target_temperature\<close>
  sends its POST. The body is built by \<^verbatim>\<open>json.dumps\<close> before the request is made,
  and a value it cannot serialise stops the write there: on the sample session a plain
  object raises TypeError, and nothing has been sent.
\<close>

theorem target_temperature_counterexample:
  "Device_set_target_temperature format_scalar 2 sample_net sample_world ''D1'' (PObject 0) =
     (Inl TypeError, sample_world)"
  by (simp add: Device_set_target_temperature_def Device_read_shared_ok sample_sections
      ebind_def attr_def sample_fields json_dumps_def Let_def)

text \<open>
  Claim C6, amended: for every device and every value that \<^verbatim>\<open>json.dumps\<close> can
  serialise, assigning \<^verbatim>\<open>Device.target_temperature\<close> sends one POST to the device's
  shared endpoint whose body is the JSON text of
  \<^verbatim>\<open>{target_change_pending: true, target_temperature: value}\<close> and whose headers are
  the connection's with \<^verbatim>\<open>X-nl-base-version\<close> set to the formatted \<^verbatim>\<open>$version\<close> of
  the cached shared section (and the JSON content type); a value that cannot be
  serialised raises TypeError before any request, and nothing else about the value is
  looked at. The device's shared section with its \<^verbatim>\<open>$version\<close> and the transport URL
  of a logged-in connection are what the write reads.
\<close>

theorem target_temperature_request:
  assumes "0 < d" and "Device_shared w i = Inr sh" and "py_getitem sh ''$version'' = Inr ver"
    and "transport_url w = Some (PStr t)"
  shows "(serialisable v \<longrightarrow>
           Device_set_target_temperature fmt d net w i v =
             (let rq = \<lparr>meth = POST, url = t @ ''/v2/put/shared.'' @ i,
                        data = Json (PDict [(''target_change_pending'', PBool True),
                                            (''target_temperature'', v)]),
                        req_headers =
                          (headers w)(''X-nl-base-version'' \<mapsto> PStr (fmt ver),
                                      ''Content-Type'' \<mapsto> PStr ''application/json'')\<rparr>
              in (check_response ''the target temperature'' (net rq),
                  w\<lparr>sent := sent w @ [rq]\<rparr>))) \<and>
         (\<not> serialisable v \<longrightarrow>
           Device_set_target_temperature fmt d net w i v = (Inl TypeError, w))"
  using assms
  by (simp add: Device_set_target_temperature_def Device_read_shared_ok ebind_def attr_def
      send_def Let_def json_dumps_def)

text \<open>
  On the sample session the value is a list of a string, which no thermostat accepts; it
  can be serialised and is sent, under the version 17 of the shared section. A list that
  holds a plain object cannot, and is not.
\<close>

theorem target_temperature_request_witness:
  "(0::nat) < 2 \<and>
   Device_shared sample_world ''D1'' =
     Inr (PDict [(''target_temperature'', PFloat 43 (- 1)),
                 (''$version'', PInt 17), (''name'', PStr ''shared hall'')]) \<and>
   py_getitem (PDict [(''target_temperature'', PFloat 43 (- 1)),
                      (''$version'', PInt 17), (''name'', PStr ''shared hall'')]) ''$version''
     = Inr (PInt 17) \<and>
   transport_url sample_world = Some (PStr ''https://t.example'') \<and>
   serialisable (PList [PStr ''warm'']) \<and>
   Device_set_target_temperature format_scalar 2 sample_net sample_world ''D1''
       (PList [PStr ''warm'']) =
     (Inr (), sample_world\<lparr>sent := sent sample_world @
        [\<lparr>meth = POST, url = ''https://t.example/v2/put/shared.D1'',
          data = Json (PDict [(''target_change_pending'', PBool True),
                              (''target_temperature'', PList [PStr ''warm''])]),
          req_headers = sample_headers(''X-nl-base-version'' \<mapsto> PStr ''17'',
                                       ''Content-Type'' \<mapsto> PStr ''application/json'')\<rparr>]\<rparr>) \<and>
   \<not> serialisable (PList [PObject 0]) \<and>
   Device_set_target_temperature format_scalar 2 sample_net sample_world ''D1''
       (PList [PObject 0]) = (Inl TypeError, sample_world)"
proof -
  have ver: "py_getitem (PDict [(''target_temperature'', PFloat 43 (- 1)),
                      (''$version'', PInt 17), (''name'', PStr ''shared hall'')]) ''$version''
     = Inr (PInt 17)"
    by simp
  have d: "(0::nat) < 2"
    by simp
  note t = target_temperature_request [OF d sample_sections(4) ver sample_fields(6),
      of _ format_scalar sample_net]
  from t [of "PList [PStr ''warm'']"] t [of "PList [PObject 0]"]
  show ?thesis
    using ver
    by (simp add: sample_sections sample_fields Let_def check_response_def sample_net_def
        format_scalar_def show_nat.simps)
qed

section \<open>Toggles\<close>

text \<open>
  Claim C8: for a device whose cached fan mode is \<open>auto\<close>, \<^verbatim>\<open>toggle_fan_mode\<close> is
  the fan mode write of \<open>on\<close>: it sends the POST to the device's endpoint with the
  body \<^verbatim>\<open>{fan_mode: on}\<close> and ends as that response says; for one whose cached fan
  mode is \<open>on\<close> it does the same with \<^verbatim>\<open>{fan_mode: auto}\<close>. For a structure whose
  cached away entry is the boolean \<open>b\<close>, \<^verbatim>\<open>toggle_away\<close> is the away write of its
  negation: it sends the POST to the structure's endpoint, under the structure's
  \<^verbatim>\<open>$version\<close>, with a body in which \<open>away\<close> is \<open>\<not> b\<close>, and ends as that response
  says. The connection is logged in (its transport URL is a string).
\<close>

theorem toggle_flips:
  assumes "1 < d" and "transport_url w = Some (PStr t)"
  shows
    "(Device_device w i = Inr dv \<and> py_getitem dv ''fan_mode'' = Inr (PStr ''auto'') \<longrightarrow>
        Device_toggle_fan_mode d net w i = Device_set_fan_mode net w i (PStr ''on'') \<and>
        Device_toggle_fan_mode d net w i =
          (let rq = \<lparr>meth = POST, url = t @ ''/v2/put/device.'' @ i,
                     data = Json (PDict [(''fan_mode'', PStr ''on'')]),
                     req_headers =
                       (headers w)(''Content-Type'' \<mapsto> PStr ''application/json'')\<rparr>
           in (check_response ''the fan mode'' (net rq), w\<lparr>sent := sent w @ [rq]\<rparr>))) \<and>
     (Device_device w i = Inr dv \<and> py_getitem dv ''fan_mode'' = Inr (PStr ''on'') \<longrightarrow>
        Device_toggle_fan_mode d net w i = Device_set_fan_mode net w i (PStr ''auto'') \<and>
        Device_toggle_fan_mode d net w i =
          (let rq = \<lparr>meth = POST, url = t @ ''/v2/put/device.'' @ i,
                     data = Json (PDict [(''fan_mode'', PStr ''auto'')]),
                     req_headers =
                       (headers w)(''Content-Type'' \<mapsto> PStr ''application/json'')\<rparr>
           in (check_response ''the fan mode'' (net rq), w\<lparr>sent := sent w @ [rq]\<rparr>))) \<and>
     (Structure_structure w j = Inr s \<and> py_getitem s ''away'' = Inr (PBool b) \<and>
      py_getitem s ''$version'' = Inr ver \<longrightarrow>
        Structure_toggle_away fmt d net w j =
          Structure_set_away fmt d net w j (PBool (\<not> b)) \<and>
        (\<exists>kvs. map_of kvs ''away'' = Some (PBool (\<not> b)) \<and>
           Structure_toggle_away fmt d net w j =
             (let rq = \<lparr>meth = POST, url = t @ ''/v2/put/structure.'' @ j,
                        data = Form (PDict kvs),
                        req_headers =
                          (headers w)(''X-nl-base-version'' \<mapsto> PStr (fmt ver),
                                      ''Content-Type'' \<mapsto> PStr ''application/json'')\<rparr>
              in (check_response ''away'' (net rq), w\<lparr>sent := sent w @ [rq]\<rparr>))))"
proof (intro conjI impI)
  assume a: "Device_device w i = Inr dv \<and> py_getitem dv ''fan_mode'' = Inr (PStr ''auto'')"
  with assms(1) have "Device_fan_mode d w i = Inr (PStr ''auto'')"
    by (simp add: Device_fan_mode_ok)
  then show eq: "Device_toggle_fan_mode d net w i = Device_set_fan_mode net w i (PStr ''on'')"
    by (simp add: Device_toggle_fan_mode_def ebind_def)
  show "Device_toggle_fan_mode d net w i =
          (let rq = \<lparr>meth = POST, url = t @ ''/v2/put/device.'' @ i,
                     data = Json (PDict [(''fan_mode'', PStr ''on'')]),
                     req_headers =
                       (headers w)(''Content-Type'' \<mapsto> PStr ''application/json'')\<rparr>
           in (check_response ''the fan mode'' (net rq), w\<lparr>sent := sent w @ [rq]\<rparr>))"
    unfolding eq using assms(2)
    by (simp add: Device_set_fan_mode_def ebind_def attr_def json_dumps_def send_def Let_def)
next
  assume a: "Device_device w i = Inr dv \<and> py_getitem dv ''fan_mode'' = Inr (PStr ''on'')"
  with assms(1) have "Device_fan_mode d w i = Inr (PStr ''on'')"
    by (simp add: Device_fan_mode_ok)
  then show eq: "Device_toggle_fan_mode d net w i = Device_set_fan_mode net w i (PStr ''auto'')"
    by (simp add: Device_toggle_fan_mode_def ebind_def)
  show "Device_toggle_fan_mode d net w i =
          (let rq = \<lparr>meth = POST, url = t @ ''/v2/put/device.'' @ i,
                     data = Json (PDict [(''fan_mode'', PStr ''auto'')]),
                     req_headers =
                       (headers w)(''Content-Type'' \<mapsto> PStr ''application/json'')\<rparr>
           in (check_response ''the fan mode'' (net rq), w\<lparr>sent := sent w @ [rq]\<rparr>))"
    unfolding eq using assms(2)
    by (simp add: Device_set_fan_mode_def ebind_def attr_def json_dumps_def send_def Let_def)
next
  assume a: "Structure_structure w j = Inr s \<and> py_getitem s ''away'' = Inr (PBool b) \<and>
      py_getitem s ''$version'' = Inr ver"
  with assms(1) have "Structure_away d w j = Inr (PBool b)"
    by (simp add: Structure_away_ok)
  then show eq: "Structure_toggle_away fmt d net w j =
      Structure_set_away fmt d net w j (PBool (\<not> b))"
    by (simp add: Structure_toggle_away_def)
  from assms(1) a have "Structure_read_structure d w j = Inr s"
    by (simp add: Structure_read_structure_ok)
  with a assms(2) have "Structure_set_away fmt d net w j (PBool (\<not> b)) =
      (let rq = \<lparr>meth = POST, url = t @ ''/v2/put/structure.'' @ j,
                 data = Form (PDict [(''away'', PBool (\<not> b))]),
                 req_headers =
                   (headers w)(''X-nl-base-version'' \<mapsto> PStr (fmt ver),
                               ''Content-Type'' \<mapsto> PStr ''application/json'')\<rparr>
       in (check_response ''away'' (net rq), w\<lparr>sent := sent w @ [rq]\<rparr>))"
    by (simp add: Structure_set_away_def ebind_def attr_def send_def Let_def)
  with eq show "\<exists>kvs. map_of kvs ''away'' = Some (PBool (\<not> b)) \<and>
           Structure_toggle_away fmt d net w j =
             (let rq = \<lparr>meth = POST, url = t @ ''/v2/put/structure.'' @ j,
                        data = Form (PDict kvs),
                        req_headers =
                          (headers w)(''X-nl-base-version'' \<mapsto> PStr (fmt ver),
                                      ''Content-Type'' \<mapsto> PStr ''application/json'')\<rparr>
              in (check_response ''away'' (net rq), w\<lparr>sent := sent w @ [rq]\<rparr>))"
    by (intro exI [of _ "[(''away'', PBool (\<not> b))]"]) simp
qed

text \<open>
  The sample thermostat is on \<open>auto\<close> and the sample structure is not away: the first
  toggle sends \<^verbatim>\<open>{fan_mode: on}\<close>, the second \<open>away\<close> = True. A write does not touch
  the snapshot, so the case \<open>on\<close> is shown on a second snapshot, where the toggle
  sends \<^verbatim>\<open>{fan_mode: auto}\<close>.
\<close>

theorem toggle_flips_witness:
  "(1::nat) < 2 \<and>
   transport_url sample_world = Some (PStr ''https://t.example'') \<and>
   Device_device sample_world ''D1'' =
     Inr (PDict [(''fan_mode'', PStr ''auto''), (''$version'', PInt 3),
                 (''_hidden'', PInt 1), (''name'', PStr ''hall'')]) \<and>
   py_getitem (PDict [(''fan_mode'', PStr ''auto''), (''$version'', PInt 3),
                      (''_hidden'', PInt 1), (''name'', PStr ''hall'')]) ''fan_mode''
     = Inr (PStr ''auto'') \<and>
   Device_toggle_fan_mode 2 sample_net sample_world ''D1'' =
     (Inr (), sample_world\<lparr>sent := sent sample_world @
        [sample_put ''device.D1'' (Json (PDict [(''fan_mode'', PStr ''on'')]))
           (sample_headers(''Content-Type'' \<mapsto> PStr ''application/json''))]\<rparr>) \<and>
   transport_url snapshot_on = Some (PStr ''https://t.example'') \<and>
   Device_device snapshot_on ''D1'' = Inr (PDict [(''fan_mode'', PStr ''on'')]) \<and>
   py_getitem (PDict [(''fan_mode'', PStr ''on'')]) ''fan_mode'' = Inr (PStr ''on'') \<and>
   Device_toggle_fan_mode 2 sample_net snapshot_on ''D1'' =
     (Inr (), snapshot_on\<lparr>sent := sent snapshot_on @
        [sample_put ''device.D1'' (Json (PDict [(''fan_mode'', PStr ''auto'')]))
           (sample_headers(''Content-Type'' \<mapsto> PStr ''application/json''))]\<rparr>) \<and>
   Structure_structure sample_world ''S1'' =
     Inr (PDict [(''away'', PBool False), (''$version'', PInt 9),
                 (''devices'', PList [PStr ''device.D1''])]) \<and>
   py_getitem (PDict [(''away'', PBool False), (''$version'', PInt 9),
                      (''devices'', PList [PStr ''device.D1''])]) ''away''
     = Inr (PBool False) \<and>
   py_getitem (PDict [(''away'', PBool False), (''$version'', PInt 9),
                      (''devices'', PList [PStr ''device.D1''])]) ''$version''
     = Inr (PInt 9) \<and>
   Structure_toggle_away format_scalar 2 sample_net sample_world ''S1'' =
     Structure_set_away format_scalar 2 sample_net sample_world ''S1'' (PBool True) \<and>
   (\<exists>kvs. map_of kvs ''away'' = Some (PBool True) \<and>
      Structure_toggle_away format_scalar 2 sample_net sample_world ''S1'' =
        (Inr (), sample_world\<lparr>sent := sent sample_world @
           [sample_put ''structure.S1'' (Form (PDict kvs))
              (sample_headers(''X-nl-base-version'' \<mapsto> PStr ''9'',
                              ''Content-Type'' \<mapsto> PStr ''application/json''))]\<rparr>))"
proof -
  have d: "(1::nat) < 2"
    by simp
  have on: "Device_device snapshot_on ''D1'' = Inr (PDict [(''fan_mode'', PStr ''on'')])"
    and url_on: "transport_url snapshot_on = Some (PStr ''https://t.example'')"
    and hs_on: "headers snapshot_on = sample_headers"
    by (simp_all add: snapshot_on_def Device_device_def ebind_def attr_def sample_fields)
  note here = toggle_flips [OF d sample_fields(6), where i = "''D1''" and net = sample_net
      and j = "''S1''" and b = False and fmt = format_scalar and ver = "PInt 9"
      and dv = "PDict [(''fan_mode'', PStr ''auto''), (''$version'', PInt 3),
                       (''_hidden'', PInt 1), (''name'', PStr ''hall'')]"
      and s = "PDict [(''away'', PBool False), (''$version'', PInt 9),
                      (''devices'', PList [PStr ''device.D1''])]"]
  note there = toggle_flips [OF d url_on, where i = "''D1''" and net = sample_net
      and dv = "PDict [(''fan_mode'', PStr ''on'')]"]
  have auto: "Device_device sample_world ''D1'' =
      Inr (PDict [(''fan_mode'', PStr ''auto''), (''$version'', PInt 3),
                  (''_hidden'', PInt 1), (''name'', PStr ''hall'')]) \<and>
    py_getitem (PDict [(''fan_mode'', PStr ''auto''), (''$version'', PInt 3),
                       (''_hidden'', PInt 1), (''name'', PStr ''hall'')]) ''fan_mode''
      = Inr (PStr ''auto'')"
    by (simp add: sample_sections)
  have on': "Device_device snapshot_on ''D1'' = Inr (PDict [(''fan_mode'', PStr ''on'')]) \<and>
    py_getitem (PDict [(''fan_mode'', PStr ''on'')]) ''fan_mode'' = Inr (PStr ''on'')"
    using on by simp
  have away: "Structure_structure sample_world ''S1'' =
      Inr (PDict [(''away'', PBool False), (''$version'', PInt 9),
                  (''devices'', PList [PStr ''device.D1''])]) \<and>
    py_getitem (PDict [(''away'', PBool False), (''$version'', PInt 9),
                       (''devices'', PList [PStr ''device.D1''])]) ''away''
      = Inr (PBool False) \<and>
    py_getitem (PDict [(''away'', PBool False), (''$version'', PInt 9),
                       (''devices'', PList [PStr ''device.D1''])]) ''$version''
      = Inr (PInt 9)"
    by (simp add: sample_sections)
  from here [THEN conjunct1, THEN mp, OF auto, THEN conjunct2]
  have "Device_toggle_fan_mode 2 sample_net sample_world ''D1'' =
     (Inr (), sample_world\<lparr>sent := sent sample_world @
        [sample_put ''device.D1'' (Json (PDict [(''fan_mode'', PStr ''on'')]))
           (sample_headers(''Content-Type'' \<mapsto> PStr ''application/json''))]\<rparr>)"
    by (simp add: sample_fields Let_def check_response_def sample_net_def sample_put_def)
  moreover
  from there [THEN conjunct2, THEN conjunct1, THEN mp, OF on', THEN conjunct2]
  have "Device_toggle_fan_mode 2 sample_net snapshot_on ''D1'' =
     (Inr (), snapshot_on\<lparr>sent := sent snapshot_on @
        [sample_put ''device.D1'' (Json (PDict [(''fan_mode'', PStr ''auto'')]))
           (sample_headers(''Content-Type'' \<mapsto> PStr ''application/json''))]\<rparr>)"
    by (simp add: hs_on Let_def check_response_def sample_net_def sample_put_def)
  moreover
  from here [THEN conjunct2, THEN conjunct2, THEN mp, OF away, THEN conjunct1]
  have "Structure_toggle_away format_scalar 2 sample_net sample_world ''S1'' =
     Structure_set_away format_scalar 2 sample_net sample_world ''S1'' (PBool True)"
    by simp
  moreover
  from here [THEN conjunct2, THEN conjunct2, THEN mp, OF away, THEN conjunct2]
  have "\<exists>kvs. map_of kvs ''away'' = Some (PBool True) \<and>
      Structure_toggle_away format_scalar 2 sample_net sample_world ''S1'' =
        (Inr (), sample_world\<lparr>sent := sent sample_world @
           [sample_put ''structure.S1'' (Form (PDict kvs))
              (sample_headers(''X-nl-base-version'' \<mapsto> PStr ''9'',
                              ''Content-Type'' \<mapsto> PStr ''application/json''))]\<rparr>)"
    by (simp add: sample_fields Let_def check_response_def sample_net_def
        sample_put_def format_scalar_def show_nat.simps)
  ultimately show ?thesis
    using on url_on auto away by (simp add: sample_fields)
qed

section \<open>Dynamic attribute lookup\<close>

text \<open>
  Claim C7 says that for every attribute name the lookup on a device returns the entry of
  the device section when the name is a key there. The sample device section has the key
  \<^verbatim>\<open>_hidden\<close>, with value 1, and looking \<^verbatim>\<open>_hidden\<close> up raises AttributeError:
  the name is rewritten to \<^verbatim>\<open>$hidden\<close> before either section is consulted.
\<close>

theorem precedence_counterexample:
  "ebind (Device_device sample_world ''D1'') (py_contains ''_hidden'') = Inr True \<and>
   ebind (Device_device sample_world ''D1'') (\<lambda>dv. py_getitem dv ''_hidden'') = Inr (PInt 1) \<and>
   Device_getattr 2 sample_world ''D1'' ''_hidden'' = Inl AttributeError"
  using Device_getattr_dict [OF _ sample_sections(3) sample_sections(4), of 2 "''_hidden''"]
  by (simp add: sample_sections ebind_def dollar_def startswith_def)

text \<open>
  Claim C7, amended: for every device and every attribute name, the lookup first replaces
  a leading underscore of the name by a dollar; it returns the entry of the device
  section when the resulting key is there, otherwise the entry of the shared section
  when the key is there, and raises AttributeError when the key is in neither.
\<close>

theorem Device_getattr_precedence:
  assumes "1 < d" and "Device_device w i = Inr (PDict dev)"
    and "Device_shared w i = Inr (PDict shr)"
  shows "(map_of dev (dollar name) = Some v \<longrightarrow> Device_getattr d w i name = Inr v) \<and>
         (map_of dev (dollar name) = None \<and> map_of shr (dollar name) = Some v \<longrightarrow>
            Device_getattr d w i name = Inr v) \<and>
         (map_of dev (dollar name) = None \<and> map_of shr (dollar name) = None \<longrightarrow>
            Device_getattr d w i name = Inl AttributeError)"
  using Device_getattr_dict [OF assms, of name] by simp

text \<open>
  On the sample device \<open>name\<close> is in both sections and the device section wins,
  \<open>target_temperature\<close> is in the shared section only, \<open>colour\<close> is in neither.
\<close>

theorem Device_getattr_precedence_witness:
  "(1::nat) < 2 \<and>
   Device_device sample_world ''D1'' =
     Inr (PDict [(''fan_mode'', PStr ''auto''), (''$version'', PInt 3),
                 (''_hidden'', PInt 1), (''name'', PStr ''hall'')]) \<and>
   Device_shared sample_world ''D1'' =
     Inr (PDict [(''target_temperature'', PFloat 43 (- 1)),
                 (''$version'', PInt 17), (''name'', PStr ''shared hall'')]) \<and>
   Device_getattr 2 sample_world ''D1'' ''name'' = Inr (PStr ''hall'') \<and>
   Device_getattr 2 sample_world ''D1'' ''target_temperature'' = Inr (PFloat 43 (- 1)) \<and>
   Device_getattr 2 sample_world ''D1'' ''colour'' = Inl AttributeError"
proof -
  have d: "(1::nat) < 2"
    by simp
  note p = Device_getattr_precedence [OF d sample_sections(3) sample_sections(4)]
  from p [of "''name''" "PStr ''hall''"]
  have "Device_getattr 2 sample_world ''D1'' ''name'' = Inr (PStr ''hall'')"
    by (simp add: dollar_def startswith_def)
  moreover
  from p [of "''target_temperature''" "PFloat 43 (- 1)"]
  have "Device_getattr 2 sample_world ''D1'' ''target_temperature'' = Inr (PFloat 43 (- 1))"
    by (simp add: dollar_def startswith_def)
  moreover
  from p [of "''colour''"]
  have "Device_getattr 2 sample_world ''D1'' ''colour'' = Inl AttributeError"
    by (simp add: dollar_def startswith_def)
  ultimately show ?thesis
    by (simp add: sample_sections)
qed

text \<open>
  Claim C10: for a User, UserSettings, Structure or Device view and a name that begins
  with an underscore, the lookup is the lookup of the key made of a dollar and the rest
  of the name in the view's section (for a device: in the device section, then in the
  shared section); \<^verbatim>\<open>_version\<close> gives the entry \<^verbatim>\<open>$version\<close>.
\<close>

theorem underscore_lookup:
  assumes "1 < d"
  shows
    "(User_user w i = Inr (PDict kvs) \<longrightarrow>
        User_getattr d w i (CHR ''_'' # rest) =
          (case map_of kvs (CHR ''$'' # rest) of
             None \<Rightarrow> Inl AttributeError | Some v \<Rightarrow> Inr v)) \<and>
     (UserSettings_user_settings w i = Inr (PDict kvs) \<longrightarrow>
        UserSettings_getattr d w i (CHR ''_'' # rest) =
          (case map_of kvs (CHR ''$'' # rest) of
             None \<Rightarrow> Inl AttributeError | Some v \<Rightarrow> Inr v)) \<and>
     (Structure_structure w i = Inr (PDict kvs) \<longrightarrow>
        Structure_getattr d w i (CHR ''_'' # rest) =
          (case map_of kvs (CHR ''$'' # rest) of
             None \<Rightarrow> Inl AttributeError | Some v \<Rightarrow> Inr v)) \<and>
     (Device_device w i = Inr (PDict kvs) \<and> Device_shared w i = Inr (PDict shr) \<longrightarrow>
        Device_getattr d w i (CHR ''_'' # rest) =
          (case map_of kvs (CHR ''$'' # rest) of
             Some v \<Rightarrow> Inr v
           | None \<Rightarrow> (case map_of shr (CHR ''$'' # rest) of
                        Some v \<Rightarrow> Inr v
                      | None \<Rightarrow> Inl AttributeError)))"
  using assms
  by (simp add: User_getattr_dict UserSettings_getattr_dict Structure_getattr_dict
      Device_getattr_dict dollar_underscore cong: option.case_cong)

text \<open>
  \<^verbatim>\<open>_version\<close> on the sample structure, user settings and device (whose own
  \<^verbatim>\<open>$version\<close> 3 comes before the shared section's 17), and on the sample user, whose
  section has no \<^verbatim>\<open>$version\<close>.
\<close>

theorem underscore_lookup_witness:
  "(1::nat) < 2 \<and>
   User_user sample_world ''U2'' = Inr (PDict [(''name'', PStr ''you'')]) \<and>
   User_getattr 2 sample_world ''U2'' ''_version'' = Inl AttributeError \<and>
   UserSettings_user_settings sample_world ''U1'' = Inr (PDict [(''$version'', PInt 1)]) \<and>
   UserSettings_getattr 2 sample_world ''U1'' ''_version'' = Inr (PInt 1) \<and>
   Structure_structure sample_world ''S1'' =
     Inr (PDict [(''away'', PBool False), (''$version'', PInt 9),
                 (''devices'', PList [PStr ''device.D1''])]) \<and>
   Structure_getattr 2 sample_world ''S1'' ''_version'' = Inr (PInt 9) \<and>
   Device_device sample_world ''D1'' =
     Inr (PDict [(''fan_mode'', PStr ''auto''), (''$version'', PInt 3),
                 (''_hidden'', PInt 1), (''name'', PStr ''hall'')]) \<and>
   Device_shared sample_world ''D1'' =
     Inr (PDict [(''target_temperature'', PFloat 43 (- 1)),
                 (''$version'', PInt 17), (''name'', PStr ''shared hall'')]) \<and>
   Device_getattr 2 sample_world ''D1'' ''_version'' = Inr (PInt 3)"
proof -
  have d: "(1::nat) < 2"
    by simp
  from underscore_lookup [OF d, where w = sample_world and i = "''U2''"
      and kvs = "[(''name'', PStr ''you'')]" and rest = "''version''"]
  have "User_getattr 2 sample_world ''U2'' ''_version'' = Inl AttributeError"
    by (simp add: sample_sections)
  moreover
  from underscore_lookup [OF d, where w = sample_world and i = "''U1''"
      and kvs = "[(''$version'', PInt 1)]" and rest = "''version''"]
  have "UserSettings_getattr 2 sample_world ''U1'' ''_version'' = Inr (PInt 1)"
    by (simp add: sample_sections)
  moreover
  from underscore_lookup [OF d, where w = sample_world and i = "''S1''"
      and kvs = "[(''away'', PBool False), (''$version'', PInt 9),
                  (''devices'', PList [PStr ''device.D1''])]" and rest = "''version''"]
  have "Structure_getattr 2 sample_world ''S1'' ''_version'' = Inr (PInt 9)"
    by (simp add: sample_sections)
  moreover
  from underscore_lookup [OF d, where w = sample_world and i = "''D1''"
      and kvs = "[(''fan_mode'', PStr ''auto''), (''$version'', PInt 3),
                  (''_hidden'', PInt 1), (''name'', PStr ''hall'')]"
      and shr = "[(''target_temperature'', PFloat 43 (- 1)),
                  (''$version'', PInt 17), (''name'', PStr ''shared hall'')]"
      and rest = "''version''"]
  have "Device_getattr 2 sample_world ''D1'' ''_version'' = Inr (PInt 3)"
    by (simp add: sample_sections)
  ultimately show ?thesis
    by (simp add: sample_sections)
qed

section \<open>The user settings cache\<close>

text \<open>Operations that leave the view objects and the identity caches alone.\<close>

lemma same_views_update_status: "same_views w (snd (update_status fmt net w))"
  by (simp add: same_views_def update_status_def send_def Let_def split: sum.splits)

lemma update_status_frame:
  "objects (snd (update_status fmt net w)) = objects w"
  "users_cache (snd (update_status fmt net w)) = users_cache w"
  "devices_cache (snd (update_status fmt net w)) = devices_cache w"
  "structures_cache (snd (update_status fmt net w)) = structures_cache w"
  "user_settings_cache (snd (update_status fmt net w)) = user_settings_cache w"
  using same_views_update_status [of w fmt net] by (simp_all add: same_views_def)

lemma same_views_login: "same_views w (snd (login fmt net w))"
  by (simp add: login_def send_def Let_def same_views_def update_status_frame
      login_headers_def split: sum.splits)

lemma same_views_set_fan_mode: "same_views w (snd (Device_set_fan_mode net w i v))"
  using Device_set_fan_mode_cases [of net w i v] by (auto simp: same_views_def)

lemma same_views_set_target_temperature:
  "same_views w (snd (Device_set_target_temperature fmt d net w i v))"
  using Device_set_target_temperature_cases [of fmt d net w i v] by (auto simp: same_views_def)

lemma same_views_set_away: "same_views w (snd (Structure_set_away fmt d net w i v))"
  using Structure_set_away_cases [of fmt d net w i v] by (auto simp: same_views_def)

lemma same_views_toggle_fan_mode: "same_views w (snd (Device_toggle_fan_mode d net w i))"
  using same_views_set_fan_mode
  by (auto simp: Device_toggle_fan_mode_def same_views_def split: sum.splits)

lemma same_views_toggle_away: "same_views w (snd (Structure_toggle_away fmt d net w i))"
  using same_views_set_away
  by (auto simp: Structure_toggle_away_def same_views_def split: sum.splits)

text \<open>Without the cache attribute, \<^verbatim>\<open>UserSettings\<close> cannot be looked up or built.\<close>

lemma UserSettings_get_no_cache:
  "user_settings_cache w = None \<Longrightarrow> UserSettings_get w i = (Inl AttributeError, w)"
  by (simp add: UserSettings_get_def attr_def)

lemma UserSettings_init_no_cache:
  "user_settings_cache w = None \<Longrightarrow> UserSettings_init w i = (Inl AttributeError, w)"
  by (simp add: UserSettings_init_def attr_def)

lemma User_settings_world:
  "user_settings_cache w = None \<Longrightarrow> snd (User_settings d w i) = w"
  by (simp add: User_settings_def UserSettings_get_no_cache)

lemma no_cache_User_init: "user_settings_cache (snd (User_init w i)) = user_settings_cache w"
  by (simp add: User_init_def)

lemma no_cache_User_get: "user_settings_cache (snd (User_get w i)) = user_settings_cache w"
  by (simp add: User_get_def no_cache_User_init split: option.splits)

lemma no_cache_Device_init: "user_settings_cache (snd (Device_init w i)) = user_settings_cache w"
  by (simp add: Device_init_def Let_def split: sum.splits bool.splits)

lemma no_cache_Device_get: "user_settings_cache (snd (Device_get w i)) = user_settings_cache w"
  by (simp add: Device_get_def Let_def no_cache_Device_init split: option.splits)

lemma no_cache_Structure_init:
  "user_settings_cache (snd (Structure_init w i)) = user_settings_cache w"
  by (simp add: Structure_init_def Let_def split: sum.splits bool.splits)

lemma no_cache_Structure_get:
  "user_settings_cache (snd (Structure_get w i)) = user_settings_cache w"
  by (simp add: Structure_get_def Let_def no_cache_Structure_init split: option.splits)

text \<open>
  \<^verbatim>\<open>Connection.__init__\<close> does not create \<^verbatim>\<open>_user_settings\<close> and no operation of
  the module does: rule induction over the reachable worlds.
\<close>

lemma reachable_no_user_settings_cache: "reachable w \<Longrightarrow> user_settings_cache w = None"
proof (induction rule: reachable.induct)
  case (Connection_init u p)
  show ?case by (simp add: Connection_init_def)
next
  case (login w fmt net)
  with same_views_login [of w fmt net] show ?case by (simp add: same_views_def)
next
  case (update_status w fmt net)
  with same_views_update_status [of w fmt net] show ?case by (simp add: same_views_def)
next
  case (User_get w i)
  then show ?case by (simp add: no_cache_User_get)
next
  case (User_init w i)
  then show ?case by (simp add: no_cache_User_init)
next
  case (User_settings w d i)
  then show ?case by (simp add: User_settings_world)
next
  case (UserSettings_get w i)
  then show ?case by (simp add: UserSettings_get_no_cache)
next
  case (UserSettings_init w i)
  then show ?case by (simp add: UserSettings_init_no_cache)
next
  case (Device_get w i)
  then show ?case by (simp add: no_cache_Device_get)
next
  case (Device_init w i)
  then show ?case by (simp add: no_cache_Device_init)
next
  case (Device_set_fan_mode w net i v)
  with same_views_set_fan_mode [of w net i v] show ?case by (simp add: same_views_def)
next
  case (Device_toggle_fan_mode w d net i)
  with same_views_toggle_fan_mode [of w d net i] show ?case by (simp add: same_views_def)
next
  case (Device_set_target_temperature w fmt d net i v)
  with same_views_set_target_temperature [of w fmt d net i v] show ?case
    by (simp add: same_views_def)
next
  case (Structure_get w i)
  then show ?case by (simp add: no_cache_Structure_get)
next
  case (Structure_init w i)
  then show ?case by (simp add: no_cache_Structure_init)
next
  case (Structure_set_away w fmt d net i v)
  with same_views_set_away [of w fmt d net i v] show ?case by (simp add: same_views_def)
next
  case (Structure_toggle_away w fmt d net i)
  with same_views_toggle_away [of w fmt d net i] show ?case by (simp add: same_views_def)
qed

text \<open>
  Claim C9 says that reading \<^verbatim>\<open>User.settings\<close> raises AttributeError on every
  connection. The getter does raise it, and Python then hands the read to
  \<^verbatim>\<open>User.__getattr__(user, 'settings')\<close>, which looks \<^verbatim>\<open>settings\<close> up in the
  user's section of the snapshot. The section of the sample user U1 has that key, and
  the read returns its value 5.
\<close>

theorem settings_counterexample:
  "User_settings 2 sample_world ''U1'' = (Inr (Val (PInt 5)), sample_world)"
proof -
  have "User_getattr 2 sample_world ''U1'' ''settings'' = Inr (PInt 5)"
    using User_getattr_dict [OF _ sample_sections(1), of 2 "''settings''"]
    by (simp add: dollar_def startswith_def)
  then show ?thesis
    by (simp add: User_settings_def UserSettings_get_no_cache sample_fields)
qed

text \<open>
  Claim C9, amended: on every connection built by \<^verbatim>\<open>Connection.__init__\<close>, whatever
  the module has done with it since, \<^verbatim>\<open>UserSettings.get\<close> and the constructor of
  \<^verbatim>\<open>UserSettings\<close> raise AttributeError, because the cache \<^verbatim>\<open>_user_settings\<close> is
  never created; reading \<^verbatim>\<open>User.settings\<close> raises AttributeError whenever the user's
  section of the loaded snapshot is a dict without the key \<^verbatim>\<open>settings\<close>. Nothing is
  changed by either.
\<close>

theorem settings_attribute_error:
  assumes "reachable w"
  shows "UserSettings_get w i = (Inl AttributeError, w) \<and>
         UserSettings_init w i = (Inl AttributeError, w) \<and>
         (1 < d \<and> User_user w i = Inr (PDict kvs) \<and> map_of kvs ''settings'' = None \<longrightarrow>
            User_settings d w i = (Inl AttributeError, w))"
proof -
  from assms have nc: "user_settings_cache w = None"
    by (rule reachable_no_user_settings_cache)
  have "User_settings d w i = (Inl AttributeError, w)"
    if "1 < d" and "User_user w i = Inr (PDict kvs)" and "map_of kvs ''settings'' = None"
  proof -
    have "dollar ''settings'' = ''settings''"
      by (simp add: dollar_def startswith_def)
    with that have "User_getattr d w i ''settings'' = Inl AttributeError"
      by (simp add: User_getattr_dict)
    with that(1) nc show ?thesis
      by (simp add: User_settings_def UserSettings_get_no_cache)
  qed
  with nc show ?thesis
    by (simp add: UserSettings_get_no_cache UserSettings_init_no_cache)
qed

text \<open>The sample user U2, whose section has the key \<open>name\<close> only.\<close>

theorem settings_attribute_error_witness:
  "reachable sample_world \<and>
   UserSettings_get sample_world ''U2'' = (Inl AttributeError, sample_world) \<and>
   UserSettings_init sample_world ''U2'' = (Inl AttributeError, sample_world) \<and>
   (1::nat) < 2 \<and>
   User_user sample_world ''U2'' = Inr (PDict [(''name'', PStr ''you'')]) \<and>
   map_of [(''name'', PStr ''you'')] ''settings'' = None \<and>
   User_settings 2 sample_world ''U2'' = (Inl AttributeError, sample_world)"
  using settings_attribute_error [OF sample_world_reachable, of "''U2''" 2
      "[(''name'', PStr ''you'')]"]
  by (simp add: sample_sections sample_world_reachable)


text \<open>
  Before the snapshot is loaded the section getters raise AttributeError themselves, and
  each dynamic lookup calls itself through the section read until the stack is full.
\<close>

lemma User_getattr_no_status:
  "status w = None \<Longrightarrow> User_getattr d w i name = Inl RecursionError"
  by (induction d arbitrary: name)
    (simp_all add: User_user_def attr_def ebind_def prop_read_def Let_def)

lemma settings_before_login:
  "User_settings d (Connection_init u p) i = (Inl RecursionError, Connection_init u p)"
proof -
  have "status (Connection_init u p) = None"
    and "user_settings_cache (Connection_init u p) = None"
    by (simp_all add: Connection_init_def)
  then show ?thesis
    by (simp add: User_settings_def UserSettings_get_no_cache User_getattr_no_status)
qed

section \<open>The identity caches\<close>

text \<open>
  What holds of the caches for every id, nested prefixes included: a constructor that
  finds its (cleaned) id in the cache fails and changes nothing, every object that
  exists is the cached one for its kind and id, and so no two objects of one kind share
  an id. A second \<^verbatim>\<open>get\<close> returns the first one's object for every user id, and for
  a device or structure id that cleaning twice leaves as cleaning once does.
\<close>

lemma User_init_cached:
  "users_cache w i \<noteq> None \<Longrightarrow> User_init w i = (Inl (RuntimeError None), w)"
  by (simp add: User_init_def)

lemma Device_init_cached:
  "devices_cache w (Device_clean_id i) \<noteq> None \<Longrightarrow>
   Device_init w i = (Inl (RuntimeError None), w)"
  by (simp add: Device_init_def)

lemma Structure_init_cached:
  "structures_cache w (Structure_clean_id i) \<noteq> None \<Longrightarrow>
   \<exists>e. Structure_init w i = (Inl e, w)"
  by (auto simp: Structure_init_def Let_def split: sum.splits bool.splits)

lemma User_get_twice:
  "\<exists>r. User_get w i = (Inr r, snd (User_get w i)) \<and>
       User_get (snd (User_get w i)) i = (Inr r, snd (User_get w i))"
  by (auto simp: User_get_def User_init_def split: option.splits)

lemma Device_get_twice:
  assumes "Device_get w i = (Inr r, w')"
    and "Device_clean_id (Device_clean_id i) = Device_clean_id i"
  shows "Device_get w' i = (Inr r, w')"
  using assms
  by (auto simp: Device_get_def Device_init_def Let_def
      split: option.splits sum.splits bool.splits if_splits)

lemma Structure_get_twice:
  assumes "Structure_get w i = (Inr r, w')"
    and "Structure_clean_id (Structure_clean_id i) = Structure_clean_id i"
  shows "Structure_get w' i = (Inr r, w')"
  using assms
  by (auto simp: Structure_get_def Structure_init_def Let_def
      split: option.splits sum.splits bool.splits if_splits)

lemma cached_ref_same_views: "same_views w w' \<Longrightarrow> cached_ref w' v = cached_ref w v"
  by (cases v) (simp_all add: same_views_def)

lemma instances_cached_same_views:
  "same_views w w' \<Longrightarrow> instances_cached w \<Longrightarrow> instances_cached w'"
  by (simp add: instances_cached_def cached_ref_same_views) (simp add: same_views_def)

text \<open>
  A constructor that succeeds appends one object and enters it in the cache under an id
  that was free; the entries of the objects that were there do not move.
\<close>

lemma instances_cached_new:
  assumes "instances_cached w" and "cached_ref w v = None"
    and "objects w' = objects w @ [v]"
    and "cached_ref w' v = Some (length (objects w))"
    and "\<And>u. u \<noteq> v \<Longrightarrow> cached_ref w' u = cached_ref w u"
  shows "instances_cached w'"
  unfolding instances_cached_def
proof (intro allI impI)
  fix r assume "r < length (objects w')"
  with assms(3) consider "r < length (objects w)" | "r = length (objects w)"
    by (auto simp: less_Suc_eq)
  then show "cached_ref w' (objects w' ! r) = Some r"
  proof cases
    case 1
    with assms(1) have old: "cached_ref w (objects w ! r) = Some r"
      by (simp add: instances_cached_def)
    with assms(2) have "objects w ! r \<noteq> v"
      by auto
    with assms(5) old 1 assms(3) show ?thesis
      by (simp add: nth_append)
  next
    case 2
    with assms(3,4) show ?thesis
      by simp
  qed
qed

lemma instances_cached_User_init:
  assumes "instances_cached w"
  shows "instances_cached (snd (User_init w i))"
proof (cases "users_cache w i")
  case (Some r)
  with assms show ?thesis by (simp add: User_init_def)
next
  case None
  show ?thesis
  proof (rule instances_cached_new [OF assms, of "UserView i"])
    fix u :: view assume "u \<noteq> UserView i"
    with None show "cached_ref (snd (User_init w i)) u = cached_ref w u"
      by (cases u) (simp_all add: User_init_def)
  qed (use None in \<open>simp_all add: User_init_def\<close>)
qed

lemma instances_cached_Device_init:
  assumes "instances_cached w"
  shows "instances_cached (snd (Device_init w i))"
proof (cases "\<exists>r. Device_init w i = (Inr r, snd (Device_init w i))")
  case False
  then have "snd (Device_init w i) = w"
    by (auto simp: Device_init_def Let_def split: sum.splits bool.splits if_splits)
  with assms show ?thesis by simp
next
  case True
  then have free: "devices_cache w (Device_clean_id i) = None"
    and new: "snd (Device_init w i) =
      w\<lparr>devices_cache := (devices_cache w)(Device_clean_id i \<mapsto> length (objects w)),
        objects := objects w @ [DeviceView (Device_clean_id i)]\<rparr>"
    by (auto simp: Device_init_def Let_def split: sum.splits bool.splits if_splits)
  show ?thesis
  proof (rule instances_cached_new [OF assms, of "DeviceView (Device_clean_id i)"])
    fix u :: view assume "u \<noteq> DeviceView (Device_clean_id i)"
    then show "cached_ref (snd (Device_init w i)) u = cached_ref w u"
      by (cases u) (simp_all add: new)
  qed (use free in \<open>simp_all add: new\<close>)
qed

lemma instances_cached_Structure_init:
  assumes "instances_cached w"
  shows "instances_cached (snd (Structure_init w i))"
proof (cases "\<exists>r. Structure_init w i = (Inr r, snd (Structure_init w i))")
  case False
  then have "snd (Structure_init w i) = w"
    by (auto simp: Structure_init_def Let_def split: sum.splits bool.splits if_splits)
  with assms show ?thesis by simp
next
  case True
  then have free: "structures_cache w (Structure_clean_id i) = None"
    and new: "snd (Structure_init w i) =
      w\<lparr>structures_cache :=
          (structures_cache w)(Structure_clean_id i \<mapsto> length (objects w)),
        objects := objects w @ [StructureView (Structure_clean_id i)]\<rparr>"
    by (auto simp: Structure_init_def Let_def split: sum.splits bool.splits if_splits)
  show ?thesis
  proof (rule instances_cached_new [OF assms, of "StructureView (Structure_clean_id i)"])
    fix u :: view assume "u \<noteq> StructureView (Structure_clean_id i)"
    then show "cached_ref (snd (Structure_init w i)) u = cached_ref w u"
      by (cases u) (simp_all add: new)
  qed (use free in \<open>simp_all add: new\<close>)
qed

lemma instances_cached_User_get:
  "instances_cached w \<Longrightarrow> instances_cached (snd (User_get w i))"
  by (simp add: User_get_def instances_cached_User_init split: option.splits)

lemma instances_cached_Device_get:
  "instances_cached w \<Longrightarrow> instances_cached (snd (Device_get w i))"
  by (simp add: Device_get_def Let_def instances_cached_Device_init split: option.splits)

lemma instances_cached_Structure_get:
  "instances_cached w \<Longrightarrow> instances_cached (snd (Structure_get w i))"
  by (simp add: Structure_get_def Let_def instances_cached_Structure_init split: option.splits)

lemma reachable_instances_cached: "reachable w \<Longrightarrow> instances_cached w"
proof (induction rule: reachable.induct)
  case (Connection_init u p)
  show ?case by (simp add: Connection_init_def instances_cached_def)
next
  case (login w fmt net)
  then show ?case using same_views_login instances_cached_same_views by blast
next
  case (update_status w fmt net)
  then show ?case using same_views_update_status instances_cached_same_views by blast
next
  case (User_get w i)
  then show ?case by (simp add: instances_cached_User_get)
next
  case (User_init w i)
  then show ?case by (simp add: instances_cached_User_init)
next
  case (User_settings w d i)
  then show ?case by (simp add: User_settings_world reachable_no_user_settings_cache)
next
  case (UserSettings_get w i)
  then show ?case by (simp add: UserSettings_get_no_cache reachable_no_user_settings_cache)
next
  case (UserSettings_init w i)
  then show ?case by (simp add: UserSettings_init_no_cache reachable_no_user_settings_cache)
next
  case (Device_get w i)
  then show ?case by (simp add: instances_cached_Device_get)
next
  case (Device_init w i)
  then show ?case by (simp add: instances_cached_Device_init)
next
  case (Device_set_fan_mode w net i v)
  then show ?case using same_views_set_fan_mode instances_cached_same_views by blast
next
  case (Device_toggle_fan_mode w d net i)
  then show ?case using same_views_toggle_fan_mode instances_cached_same_views by blast
next
  case (Device_set_target_temperature w fmt d net i v)
  then show ?case using same_views_set_target_temperature instances_cached_same_views by blast
next
  case (Structure_get w i)
  then show ?case by (simp add: instances_cached_Structure_get)
next
  case (Structure_init w i)
  then show ?case by (simp add: instances_cached_Structure_init)
next
  case (Structure_set_away w fmt d net i v)
  then show ?case using same_views_set_away instances_cached_same_views by blast
next
  case (Structure_toggle_away w fmt d net i)
  then show ?case using same_views_toggle_away instances_cached_same_views by blast
qed

lemma one_instance_per_id:
  assumes "reachable w"
  shows "distinct (objects w)"
proof -
  from assms have "instances_cached w"
    by (rule reachable_instances_cached)
  then have "\<And>r r'. r < length (objects w) \<Longrightarrow> r' < length (objects w) \<Longrightarrow>
      objects w ! r = objects w ! r' \<Longrightarrow> r = r'"
    unfolding instances_cached_def by (metis option.inject)
  then show ?thesis
    by (auto simp: distinct_conv_nth)
qed

text \<open>
  Claim C2: on one connection there is at most one instance per kind and id, calling
  \<^verbatim>\<open>get\<close> twice with the same id returns the same cached instance, and building a
  second instance for a cached id fails. The first and the last hold for every id, as
  shown above; the second fails for an id with a nested prefix. \<^verbatim>\<open>Device.get\<close>
  strips the prefix \<^verbatim>\<open>device.\<close> once and looks the result up;
  \<^verbatim>\<open>Device.__init__\<close> strips it once more and stores the object under what is left.
  For the id \<^verbatim>\<open>device.device.D1\<close> the first call creates the object 0 under the key
  \<^verbatim>\<open>D1\<close>; the second call looks for \<^verbatim>\<open>device.D1\<close>, does not find it,
  constructs again and fails with RuntimeError. \<^verbatim>\<open>Structure\<close> does the same with
  its prefix; \<^verbatim>\<open>User\<close>, which does not clean ids, returns the cached object for
  every id.
\<close>

theorem get_twice_nested_prefix:
  "fst (Device_get sample_world ''device.device.D1'') = Inr 0 \<and>
   fst (Device_get (snd (Device_get sample_world ''device.device.D1'')) ''device.device.D1'')
     = Inl (RuntimeError None) \<and>
   fst (Structure_get sample_world ''structure.structure.S1'') = Inr 0 \<and>
   fst (Structure_get (snd (Structure_get sample_world ''structure.structure.S1''))
          ''structure.structure.S1'')
     = Inl (RuntimeError None)"
  by (simp add: Device_get_def Device_init_def Device_clean_id_def Structure_get_def
      Structure_init_def Structure_clean_id_def startswith_def Let_def
      sample_fields sample_status_def ebind_def attr_def absent_def)

end
